theory Spec2Isabelle
  imports Main "HOL-Library.AList"
begin

section \<open>Go runtime primitives used by the hub\<close>

text \<open>
  The connection hub is Go code built on channels and maps.  A panic of the Go
  runtime and a goroutine that cannot proceed are results of the model, so that
  every function below is total and says what the code does in each state.
\<close>

datatype panic = SendOnClosedChannel | CloseOfClosedChannel | InterfaceConversion

datatype fault = Panic panic | Blocked

definition and_then :: "fault + 'a \<Rightarrow> ('a \<Rightarrow> fault + 'b) \<Rightarrow> fault + 'b" where
  "and_then r f = (case r of Inl e \<Rightarrow> Inl e | Inr x \<Rightarrow> f x)"

text \<open>A buffered channel: the queued values (oldest first), the capacity, the closed flag.\<close>

record 'a chan =
  buf :: "'a list"
  cap :: nat
  closed :: bool

definition make_chan :: "nat \<Rightarrow> 'a chan" where
  "make_chan n = \<lparr>buf = [], cap = n, closed = False\<rparr>"

text \<open>\<^verbatim>\<open>close(ch)\<close>: closing a closed channel panics.\<close>

definition close_chan :: "'a chan \<Rightarrow> fault + 'a chan" where
  "close_chan ch =
     (if closed ch then Inl (Panic CloseOfClosedChannel) else Inr (ch\<lparr>closed := True\<rparr>))"

text \<open>
  \<^verbatim>\<open>select { case ch <- v: default: }\<close>: a send on a closed channel panics (also
  inside a select); otherwise the value is queued when there is room (result
  \<open>Some\<close>), and the default branch is taken when the buffer is full (result \<open>None\<close>).
\<close>

definition try_send :: "'a chan \<Rightarrow> 'a \<Rightarrow> fault + 'a chan option" where
  "try_send ch v =
     (if closed ch then Inl (Panic SendOnClosedChannel)
      else if length (buf ch) < cap ch then Inr (Some (ch\<lparr>buf := buf ch @ [v]\<rparr>))
      else Inr None)"

text \<open>
  \<^verbatim>\<open>ch <- v\<close> on one of the hub's two buffered channels
  (\<^verbatim>\<open>make(chan ..., 256)\<close>, never closed): the plain send waits while the buffer
  is full.  Such a channel is the list of its queued values.
\<close>

definition hub_send :: "'a list \<Rightarrow> 'a \<Rightarrow> fault + 'a list" where
  "hub_send q v = (if length q < 256 then Inr (q @ [v]) else Inl Blocked)"

section \<open>Identifiers and JSON values\<close>

text \<open>
  A \<^verbatim>\<open>uuid.UUID\<close> is modelled by its canonical text (36 characters, lower-case
  hexadecimal digits, hyphens at positions 8, 13, 18 and 23), so that
  \<^verbatim>\<open>String()\<close> is the identity.  \<^verbatim>\<open>uuid.Parse\<close> (google/uuid 1.5.0)
  chooses the encoding by the length in bytes: the hyphenated form (36), the same
  after a \<^verbatim>\<open>urn:uuid:\<close> prefix in any letter case (45), the same between two
  bytes that are not examined (38), and 32 hexadecimal digits.  Digits may be
  upper-case; the result is the canonical text.
\<close>

type_synonym uuid = string

definition uuid_Nil :: uuid where
  "uuid_Nil = ''00000000-0000-0000-0000-000000000000''"

definition hex_lower :: "char \<Rightarrow> char option" where
  "hex_lower c =
     (if c \<in> set ''0123456789abcdef'' then Some c
      else if c = CHR ''A'' then Some CHR ''a''
      else if c = CHR ''B'' then Some CHR ''b''
      else if c = CHR ''C'' then Some CHR ''c''
      else if c = CHR ''D'' then Some CHR ''d''
      else if c = CHR ''E'' then Some CHR ''e''
      else if c = CHR ''F'' then Some CHR ''f''
      else None)"

fun uuid_chars :: "nat \<Rightarrow> string \<Rightarrow> string option" where
  "uuid_chars i [] = Some []"
| "uuid_chars i (c # cs) =
     (case (if i = 8 \<or> i = 13 \<or> i = 18 \<or> i = 23
            then (if c = CHR ''-'' then Some c else None) else hex_lower c) of
        None \<Rightarrow> None
      | Some d \<Rightarrow> (case uuid_chars (Suc i) cs of None \<Rightarrow> None | Some ds \<Rightarrow> Some (d # ds)))"

definition ascii_upper :: "char \<Rightarrow> char" where
  "ascii_upper c =
     (case map_of (zip ''abcdefghijklmnopqrstuvwxyz'' ''ABCDEFGHIJKLMNOPQRSTUVWXYZ'') c of
        None \<Rightarrow> c
      | Some d \<Rightarrow> d)"

fun hex_digits :: "string \<Rightarrow> string option" where
  "hex_digits [] = Some []"
| "hex_digits (c # cs) =
     (case hex_lower c of
        None \<Rightarrow> None
      | Some d \<Rightarrow> (case hex_digits cs of None \<Rightarrow> None | Some ds \<Rightarrow> Some (d # ds)))"

definition uuid_Parse :: "string \<Rightarrow> uuid option" where
  "uuid_Parse s =
     (if length s = 36 then uuid_chars 0 s
      else if length s = 45
      then (if map ascii_upper (take 9 s) = ''URN:UUID:'' then uuid_chars 0 (drop 9 s) else None)
      else if length s = 38 then uuid_chars 0 (take 36 (drop 1 s))
      else if length s = 32
      then (case hex_digits s of
              None \<Rightarrow> None
            | Some ds \<Rightarrow>
                Some (take 8 ds @ ''-'' @ take 4 (drop 8 ds) @ ''-'' @ take 4 (drop 12 ds) @ ''-'' @
                      take 4 (drop 16 ds) @ ''-'' @ drop 20 ds))
      else None)"

text \<open>
  A JSON text is modelled by the value it denotes.  A byte string handed to
  \<^verbatim>\<open>json.Unmarshal\<close> is \<open>None\<close> when it is not a JSON text and \<open>Some j\<close>
  when it is the text of \<open>j\<close>.
\<close>

datatype json =
    JNull
  | JBool bool
  | JNumber int
  | JString string
  | JArray "json list"
  | JObject "(string \<times> json) list"

type_synonym raw_json = "json option"

section \<open>Wire envelopes (message.go)\<close>

type_synonym MessageType = string

definition MessageTypeSendMessage :: MessageType where "MessageTypeSendMessage = ''send_message''"
definition MessageTypeReadMessage :: MessageType where "MessageTypeReadMessage = ''read_message''"
definition MessageTypeReadChat :: MessageType where "MessageTypeReadChat = ''read_chat''"
definition MessageTypeTypingStart :: MessageType where "MessageTypeTypingStart = ''typing_start''"
definition MessageTypeTypingStop :: MessageType where "MessageTypeTypingStop = ''typing_stop''"
definition MessageTypeSubscribeChat :: MessageType where "MessageTypeSubscribeChat = ''subscribe_chat''"
definition MessageTypeUnsubscribeChat :: MessageType where
  "MessageTypeUnsubscribeChat = ''unsubscribe_chat''"
definition MessageTypeMessage :: MessageType where "MessageTypeMessage = ''message''"
definition MessageTypeMessageRead :: MessageType where "MessageTypeMessageRead = ''message_read''"
definition MessageTypeTyping :: MessageType where "MessageTypeTyping = ''typing''"
definition MessageTypeUserOnline :: MessageType where "MessageTypeUserOnline = ''user_online''"
definition MessageTypeUserOffline :: MessageType where "MessageTypeUserOffline = ''user_offline''"
definition MessageTypeError :: MessageType where "MessageTypeError = ''error''"

record MessagePayload =
  mp_ID :: string
  mp_ChatID :: string
  mp_SenderID :: string
  mp_SenderName :: string
  mp_SenderAvatar :: string
  mp_Content :: string
  mp_MessageType :: string
  mp_MediaURL :: "string option"
  mp_ReplyToID :: "string option"
  mp_IsEdited :: bool
  mp_IsDeleted :: bool
  mp_Status :: string
  mp_CreatedAt :: nat

text \<open>
  The dynamic value of the \<^verbatim>\<open>Payload interface{}\<close> field.  \<open>Decoded j\<close> stands for
  what \<^verbatim>\<open>json.Unmarshal\<close> stores in an empty interface for a JSON value other than
  null (a bool, float64, string, slice or map); \<open>RawMessage\<close> is a
  \<^verbatim>\<open>json.RawMessage\<close>; the others are the payload structs the server builds.
  The \<^verbatim>\<open>time.Now()\<close> stamps of the envelopes are left out.
\<close>

datatype payload =
    NilPayload
  | Decoded json
  | RawMessage raw_json
  | PMessage MessagePayload
  | PMessageRead string string
  | PTypingStatus string string string bool
  | PUserStatus string string bool
  | PError string string

record WSMessage =
  Type :: MessageType
  Payload :: payload
  RequestID :: string

text \<open>
  \<^verbatim>\<open>json.Unmarshal\<close> into a struct: the text must be a JSON object (or null, which
  leaves the struct as it is); the members are decoded in order onto the fields
  their keys name, a null member leaves a field as it is (a pointer or interface
  field becomes nil), a member of the wrong JSON type is an error, unknown keys
  are skipped.  \<open>None\<close> is the error result.

  A key names the field whose JSON name it equals after case folding
  (\<^verbatim>\<open>foldName\<close>): ASCII letters in either case, and the two other characters
  that fold to an ASCII letter, U+017F (bytes C5 BF) for \<open>S\<close> and U+212A (bytes
  E2 84 AA) for \<open>K\<close>.  The names of each struct here differ after folding, so
  the preference for an exact match changes nothing.
\<close>

fun foldName :: "string \<Rightarrow> string" where
  "foldName (a # b # c # cs) =
     (if a = CHR 0xE2 \<and> b = CHR 0x84 \<and> c = CHR 0xAA then CHR ''K'' # foldName cs
      else if a = CHR 0xC5 \<and> b = CHR 0xBF then CHR ''S'' # foldName (c # cs)
      else ascii_upper a # foldName (b # c # cs))"
| "foldName [a, b] =
     (if a = CHR 0xC5 \<and> b = CHR 0xBF then [CHR ''S''] else [ascii_upper a, ascii_upper b])"
| "foldName [a] = [ascii_upper a]"
| "foldName [] = []"

definition names :: "string \<Rightarrow> string \<Rightarrow> bool" where
  "names key field = (foldName key = foldName field)"

definition Unmarshal_object :: "raw_json \<Rightarrow> (string \<times> json) list option" where
  "Unmarshal_object raw =
     (case raw of
        None \<Rightarrow> None
      | Some JNull \<Rightarrow> Some []
      | Some (JObject kvs) \<Rightarrow> Some kvs
      | Some _ \<Rightarrow> None)"

fun string_field :: "string \<Rightarrow> string \<Rightarrow> (string \<times> json) list \<Rightarrow> string option" where
  "string_field k cur [] = Some cur"
| "string_field k cur ((k', v) # kvs) =
     (if names k' k
      then (case v of
              JString s \<Rightarrow> string_field k s kvs
            | JNull \<Rightarrow> string_field k cur kvs
            | _ \<Rightarrow> None)
      else string_field k cur kvs)"

fun ptr_field :: "string \<Rightarrow> string option \<Rightarrow> (string \<times> json) list \<Rightarrow> string option option" where
  "ptr_field k cur [] = Some cur"
| "ptr_field k cur ((k', v) # kvs) =
     (if names k' k
      then (case v of
              JString s \<Rightarrow> ptr_field k (Some s) kvs
            | JNull \<Rightarrow> ptr_field k None kvs
            | _ \<Rightarrow> None)
      else ptr_field k cur kvs)"

fun bool_field :: "string \<Rightarrow> bool \<Rightarrow> (string \<times> json) list \<Rightarrow> bool option" where
  "bool_field k cur [] = Some cur"
| "bool_field k cur ((k', v) # kvs) =
     (if names k' k
      then (case v of
              JBool b \<Rightarrow> bool_field k b kvs
            | JNull \<Rightarrow> bool_field k cur kvs
            | _ \<Rightarrow> None)
      else bool_field k cur kvs)"

text \<open>
  A member decoded into an \<^verbatim>\<open>interface{}\<close> field: null gives nil, every
  other value gives the generic Go value of that JSON value.  A
  \<^verbatim>\<open>json.RawMessage\<close> is never produced.
\<close>

fun iface_field :: "string \<Rightarrow> payload \<Rightarrow> (string \<times> json) list \<Rightarrow> payload" where
  "iface_field k cur [] = cur"
| "iface_field k cur ((k', v) # kvs) =
     (if names k' k
      then iface_field k (case v of JNull \<Rightarrow> NilPayload | _ \<Rightarrow> Decoded v) kvs
      else iface_field k cur kvs)"

text \<open>
  A member decoded into the \<^verbatim>\<open>time.Time\<close> field of the envelope: null leaves
  it, a string must be a time that \<^verbatim>\<open>Time.UnmarshalJSON\<close> accepts (RFC 3339),
  anything else is an error.  Which strings are times is left to the parameter
  \<open>is_time\<close>; the value of the stamp is not kept.
\<close>

fun time_field :: "(string \<Rightarrow> bool) \<Rightarrow> string \<Rightarrow> (string \<times> json) list \<Rightarrow> bool" where
  "time_field is_time k [] = True"
| "time_field is_time k ((k', v) # kvs) =
     (if names k' k
      then (case v of
              JString s \<Rightarrow> is_time s \<and> time_field is_time k kvs
            | JNull \<Rightarrow> time_field is_time k kvs
            | _ \<Rightarrow> False)
      else time_field is_time k kvs)"

definition Unmarshal_WSMessage :: "(string \<Rightarrow> bool) \<Rightarrow> raw_json \<Rightarrow> WSMessage option" where
  "Unmarshal_WSMessage is_time raw =
     (case Unmarshal_object raw of
        None \<Rightarrow> None
      | Some kvs \<Rightarrow>
          (case string_field ''type'' [] kvs of
             None \<Rightarrow> None
           | Some t \<Rightarrow>
               (case string_field ''request_id'' [] kvs of
                  None \<Rightarrow> None
                | Some rid \<Rightarrow>
                    if time_field is_time ''timestamp'' kvs
                    then Some \<lparr>Type = t, Payload = iface_field ''payload'' NilPayload kvs,
                               RequestID = rid\<rparr>
                    else None)))"

record SendMessagePayload =
  smp_ChatID :: string
  smp_Content :: string
  smp_MessageType :: string
  smp_MediaURL :: "string option"
  smp_ReplyToID :: "string option"

definition Unmarshal_SendMessagePayload :: "raw_json \<Rightarrow> SendMessagePayload option" where
  "Unmarshal_SendMessagePayload raw =
     (case Unmarshal_object raw of
        None \<Rightarrow> None
      | Some kvs \<Rightarrow>
          (case (string_field ''chat_id'' [] kvs, string_field ''content'' [] kvs,
                 string_field ''message_type'' [] kvs, ptr_field ''media_url'' None kvs,
                 ptr_field ''reply_to_id'' None kvs) of
             (Some c, Some t, Some mt, Some mu, Some rt) \<Rightarrow>
               Some \<lparr>smp_ChatID = c, smp_Content = t, smp_MessageType = mt,
                     smp_MediaURL = mu, smp_ReplyToID = rt\<rparr>
           | _ \<Rightarrow> None))"

text \<open>
  \<^verbatim>\<open>ReadMessagePayload\<close>, \<^verbatim>\<open>ReadChatPayload\<close> and \<^verbatim>\<open>SubscribePayload\<close>
  are structs of one string field; the result is that field.
\<close>

definition Unmarshal_string_struct :: "string \<Rightarrow> raw_json \<Rightarrow> string option" where
  "Unmarshal_string_struct k raw =
     (case Unmarshal_object raw of None \<Rightarrow> None | Some kvs \<Rightarrow> string_field k [] kvs)"

text \<open>\<^verbatim>\<open>TypingPayload\<close>: the chat id and the flag.\<close>

definition Unmarshal_TypingPayload :: "raw_json \<Rightarrow> (string \<times> bool) option" where
  "Unmarshal_TypingPayload raw =
     (case Unmarshal_object raw of
        None \<Rightarrow> None
      | Some kvs \<Rightarrow>
          (case (string_field ''chat_id'' [] kvs, bool_field ''is_typing'' False kvs) of
             (Some c, Some b) \<Rightarrow> Some (c, b)
           | _ \<Rightarrow> None))"

text \<open>
  The type assertion \<^verbatim>\<open>msg.Payload.(json.RawMessage)\<close> in its one-result form
  panics unless the dynamic type is \<^verbatim>\<open>json.RawMessage\<close>.
\<close>

definition assert_RawMessage :: "payload \<Rightarrow> fault + raw_json" where
  "assert_RawMessage p =
     (case p of RawMessage raw \<Rightarrow> Inr raw | _ \<Rightarrow> Inl (Panic InterfaceConversion))"

text \<open>
  \<^verbatim>\<open>json.Marshal\<close> of an envelope is injective on the envelopes built here and
  cannot fail on them, so the bytes are modelled by the envelope they encode.
\<close>

datatype bytes = Bytes WSMessage

definition mustMarshal :: "WSMessage \<Rightarrow> bytes" where
  "mustMarshal v = Bytes v"

definition bytes_type :: "bytes \<Rightarrow> MessageType" where
  "bytes_type b = (case b of Bytes m \<Rightarrow> Type m)"

record broadcastMessage =
  bm_message :: bytes
  bm_excludeID :: uuid
  bm_skipCheck :: bool

record chatBroadcastMessage =
  cbm_chatID :: uuid
  cbm_message :: bytes
  cbm_excludeID :: uuid
  cbm_skipCheck :: bool

section \<open>Persistence (models and repositories)\<close>

record User =
  user_ID :: uuid
  Username :: string
  FirstName :: string
  LastName :: string
  AvatarURL :: string
  IsOnline :: bool

record Message =
  ID :: uuid
  ChatID :: uuid
  SenderID :: uuid
  Content :: string
  MsgType :: string
  MediaURL :: "string option"
  ReplyToID :: "uuid option"
  IsEdited :: bool
  IsDeleted :: bool
  Status :: string
  CreatedAt :: nat

datatype db_op =
    OpSetOnline | OpUserGetByID | OpChatGetByID | OpIsMember
  | OpMessageCreate | OpMessageGetByID | OpGetChatMessages | OpMarkChatAsRead

text \<open>
  The database: the rows of the tables the hub reaches, the identifier and the
  clock value the next insert receives, and the operations that currently fail
  (an unavailable database is part of the environment).
\<close>

record repo =
  users :: "User list"
  chats :: "uuid list"
  chat_members :: "(uuid \<times> uuid) list"
  messages :: "Message list"
  message_reads :: "(uuid \<times> uuid) list"
  next_id :: uuid
  now :: nat
  failing :: "db_op \<Rightarrow> bool"

definition GetFullName :: "User \<Rightarrow> string" where
  "GetFullName u =
     (if FirstName u = [] \<and> LastName u = [] then Username u
      else FirstName u @ '' '' @ LastName u)"

text \<open>\<^verbatim>\<open>userRepository.SetOnline\<close>; the caller drops the error.\<close>

definition SetOnline :: "repo \<Rightarrow> uuid \<Rightarrow> bool \<Rightarrow> repo" where
  "SetOnline r u b =
     (if failing r OpSetOnline then r
      else r\<lparr>users := map (\<lambda>x. if user_ID x = u then x\<lparr>IsOnline := b\<rparr> else x) (users r)\<rparr>)"

datatype err = ErrDB | ErrChatNotFound | ErrNotMember | ErrEmptyContent | ErrMessageNotFound

definition chat_GetByID :: "repo \<Rightarrow> uuid \<Rightarrow> err + uuid option" where
  "chat_GetByID r chatID =
     (if failing r OpChatGetByID then Inl ErrDB
      else Inr (if chatID \<in> set (chats r) then Some chatID else None))"

definition IsMember :: "repo \<Rightarrow> uuid \<Rightarrow> uuid \<Rightarrow> err + bool" where
  "IsMember r chatID u =
     (if failing r OpIsMember then Inl ErrDB else Inr ((chatID, u) \<in> set (chat_members r)))"

text \<open>\<^verbatim>\<open>ChatService.GetChat\<close>: the access check of a subscription.\<close>

definition GetChat :: "repo \<Rightarrow> uuid \<Rightarrow> uuid \<Rightarrow> err + uuid" where
  "GetChat r chatID u =
     (case chat_GetByID r chatID of
        Inl e \<Rightarrow> Inl e
      | Inr None \<Rightarrow> Inl ErrChatNotFound
      | Inr (Some chat) \<Rightarrow>
          (case IsMember r chatID u of
             Inl e \<Rightarrow> Inl e
           | Inr isMember \<Rightarrow> if \<not> isMember then Inl ErrNotMember else Inr chat))"

definition user_GetByID :: "repo \<Rightarrow> uuid \<Rightarrow> err + User option" where
  "user_GetByID r u =
     (if failing r OpUserGetByID then Inl ErrDB else Inr (find (\<lambda>x. user_ID x = u) (users r)))"

definition message_GetByID :: "repo \<Rightarrow> uuid \<Rightarrow> err + Message option" where
  "message_GetByID r i =
     (if failing r OpMessageGetByID then Inl ErrDB else Inr (find (\<lambda>m. ID m = i) (messages r)))"

text \<open>
  \<^verbatim>\<open>messageRepository.GetChatMessages\<close>: the rows of the chat that are not deleted,
  newest first (\<^verbatim>\<open>ORDER BY created_at DESC\<close>; SQL leaves the order of equal stamps
  open, here it is the reverse of a stable sort), cut by limit and offset, then
  reversed in place.
\<close>

definition order_desc :: "Message list \<Rightarrow> Message list" where
  "order_desc ms = rev (sort_key CreatedAt ms)"

definition GetChatMessages :: "repo \<Rightarrow> uuid \<Rightarrow> nat \<Rightarrow> nat \<Rightarrow> err + Message list" where
  "GetChatMessages r chatID limit offset =
     (if failing r OpGetChatMessages then Inl ErrDB
      else Inr (rev (take limit (drop offset
             (order_desc (filter (\<lambda>m. ChatID m = chatID \<and> \<not> IsDeleted m) (messages r)))))))"

text \<open>
  \<^verbatim>\<open>messageRepository.MarkChatAsRead\<close>: one read mark per message of the chat that
  another user sent and that is not deleted; the unique index on (message, user)
  makes a repeated insert a no-op.
\<close>

definition repo_MarkChatAsRead :: "repo \<Rightarrow> uuid \<Rightarrow> uuid \<Rightarrow> err + repo" where
  "repo_MarkChatAsRead r chatID u =
     (if failing r OpMarkChatAsRead then Inl ErrDB
      else Inr (r\<lparr>message_reads :=
              fold (\<lambda>m rs. List.insert (ID m, u) rs)
                (filter (\<lambda>m. ChatID m = chatID \<and> SenderID m \<noteq> u \<and> \<not> IsDeleted m) (messages r))
                (message_reads r)\<rparr>))"

text \<open>\<^verbatim>\<open>messageRepository.Create\<close>: the database supplies the id and the creation stamp.\<close>

definition message_Create :: "repo \<Rightarrow> Message \<Rightarrow> err + (Message \<times> repo)" where
  "message_Create r m =
     (if failing r OpMessageCreate then Inl ErrDB
      else (let m' = m\<lparr>ID := next_id r, CreatedAt := now r\<rparr>
            in Inr (m', r\<lparr>messages := messages r @ [m']\<rparr>)))"

definition MessageTypeText :: string where "MessageTypeText = ''text''"
definition MessageStatusSent :: string where "MessageStatusSent = ''sent''"

text \<open>
  \<^verbatim>\<open>MessageService.SendMessage\<close>.  The lines that load the sender after the insert
  only fill a field the hub does not read.
\<close>

definition SendMessage ::
  "repo \<Rightarrow> uuid \<Rightarrow> uuid \<Rightarrow> string \<Rightarrow> string \<Rightarrow> string option \<Rightarrow> uuid option \<Rightarrow> err + (Message \<times> repo)"
where
  "SendMessage r chatID senderID content messageType mediaURL replyToID =
     (if content = [] \<and> messageType = MessageTypeText then Inl ErrEmptyContent
      else case IsMember r chatID senderID of
             Inl e \<Rightarrow> Inl e
           | Inr isMember \<Rightarrow>
               if \<not> isMember then Inl ErrNotMember
               else message_Create r
                 \<lparr>ID = uuid_Nil, ChatID = chatID, SenderID = senderID, Content = content,
                  MsgType = messageType, MediaURL = mediaURL, ReplyToID = replyToID,
                  IsEdited = False, IsDeleted = False, Status = MessageStatusSent,
                  CreatedAt = 0\<rparr>)"

text \<open>\<^verbatim>\<open>MessageService.MarkAsRead\<close>: the mark is made for the whole chat of the message.\<close>

definition MarkAsRead :: "repo \<Rightarrow> uuid \<Rightarrow> uuid \<Rightarrow> err + repo" where
  "MarkAsRead r messageID u =
     (case message_GetByID r messageID of
        Inl e \<Rightarrow> Inl e
      | Inr None \<Rightarrow> Inl ErrMessageNotFound
      | Inr (Some message) \<Rightarrow>
          if SenderID message = u then Inr r else repo_MarkChatAsRead r (ChatID message) u)"

text \<open>\<^verbatim>\<open>MessageService.MarkChatAsRead\<close>\<close>

definition MarkChatAsRead :: "repo \<Rightarrow> uuid \<Rightarrow> uuid \<Rightarrow> err + repo" where
  "MarkChatAsRead r chatID u =
     (case IsMember r chatID u of
        Inl e \<Rightarrow> Inl e
      | Inr isMember \<Rightarrow>
          if \<not> isMember then Inl ErrNotMember else repo_MarkChatAsRead r chatID u)"

definition err_Error :: "err \<Rightarrow> string" where
  "err_Error e =
     (case e of
        ErrDB \<Rightarrow> ''database error''
      | ErrChatNotFound \<Rightarrow> ''chat not found''
      | ErrNotMember \<Rightarrow> ''user is not a member of this chat''
      | ErrEmptyContent \<Rightarrow> ''message content cannot be empty''
      | ErrMessageNotFound \<Rightarrow> ''message not found'')"

section \<open>Sessions (client.go)\<close>

record Client =
  userID :: uuid
  username :: string
  send :: "bytes chan"
  subscribed :: "uuid list"
  typing :: "uuid list"

text \<open>
  The hub's maps hold pointers to clients, and two clients of one user can be
  alive at once, so clients live in a store addressed by references.  A Go map is
  an association list with distinct keys; its order stands for the iteration
  order, which Go leaves open.
\<close>

type_synonym cref = nat

record Hub =
  clients :: "(uuid \<times> cref) list"
  clientsByChat :: "(uuid \<times> (uuid \<times> cref) list) list"
  broadcast :: "broadcastMessage list"
  broadcastToChat :: "chatBroadcastMessage list"

record world =
  heap :: "cref \<Rightarrow> Client"
  hub :: Hub
  db :: repo

definition NewClient :: "uuid \<Rightarrow> string \<Rightarrow> Client" where
  "NewClient u name =
     \<lparr>userID = u, username = name, send = make_chan 256, subscribed = [], typing = []\<rparr>"

definition NewHub :: Hub where
  "NewHub = \<lparr>clients = [], clientsByChat = [],
             broadcast = [], broadcastToChat = []\<rparr>"

definition set_send :: "world \<Rightarrow> cref \<Rightarrow> bytes chan \<Rightarrow> world" where
  "set_send w c ch = w\<lparr>heap := (heap w)(c := (heap w c)\<lparr>send := ch\<rparr>)\<rparr>"

text \<open>\<^verbatim>\<open>close(c.send)\<close>\<close>

definition close_send :: "world \<Rightarrow> cref \<Rightarrow> fault + world" where
  "close_send w c = and_then (close_chan (send (heap w c))) (\<lambda>ch. Inr (set_send w c ch))"

text \<open>\<^verbatim>\<open>Client.Send\<close>: a full queue is closed by the sender itself.\<close>

definition Send :: "world \<Rightarrow> cref \<Rightarrow> WSMessage \<Rightarrow> fault + world" where
  "Send w c msg =
     and_then (try_send (send (heap w c)) (Bytes msg))
       (\<lambda>r. case r of Some ch \<Rightarrow> Inr (set_send w c ch) | None \<Rightarrow> close_send w c)"

definition SendError :: "world \<Rightarrow> cref \<Rightarrow> string \<Rightarrow> string \<Rightarrow> fault + world" where
  "SendError w c code message =
     Send w c \<lparr>Type = MessageTypeError, Payload = PError code message, RequestID = []\<rparr>"

definition Subscribe :: "world \<Rightarrow> cref \<Rightarrow> uuid \<Rightarrow> world" where
  "Subscribe w c chatID =
     w\<lparr>heap := (heap w)(c := (heap w c)\<lparr>subscribed := List.insert chatID (subscribed (heap w c))\<rparr>)\<rparr>"

definition Unsubscribe :: "world \<Rightarrow> cref \<Rightarrow> uuid \<Rightarrow> world" where
  "Unsubscribe w c chatID =
     w\<lparr>heap := (heap w)(c := (heap w c)
        \<lparr>subscribed := removeAll chatID (subscribed (heap w c)),
         typing := removeAll chatID (typing (heap w c))\<rparr>)\<rparr>"

definition SetTyping :: "world \<Rightarrow> cref \<Rightarrow> uuid \<Rightarrow> bool \<Rightarrow> world" where
  "SetTyping w c chatID isTyping =
     w\<lparr>heap := (heap w)(c := (heap w c)
        \<lparr>typing := (if isTyping then List.insert chatID (typing (heap w c))
                    else removeAll chatID (typing (heap w c)))\<rparr>)\<rparr>"

section \<open>The hub (registration, deregistration, fan-out)\<close>

definition set_clients :: "world \<Rightarrow> (uuid \<times> cref) list \<Rightarrow> world" where
  "set_clients w cs = w\<lparr>hub := (hub w)\<lparr>clients := cs\<rparr>\<rparr>"

definition set_clientsByChat :: "world \<Rightarrow> (uuid \<times> (uuid \<times> cref) list) list \<Rightarrow> world" where
  "set_clientsByChat w m = w\<lparr>hub := (hub w)\<lparr>clientsByChat := m\<rparr>\<rparr>"

text \<open>\<^verbatim>\<open>h.broadcast <- m\<close>\<close>

definition send_broadcast :: "world \<Rightarrow> broadcastMessage \<Rightarrow> fault + world" where
  "send_broadcast w m =
     and_then (hub_send (broadcast (hub w)) m) (\<lambda>ch. Inr (w\<lparr>hub := (hub w)\<lparr>broadcast := ch\<rparr>\<rparr>))"

text \<open>\<^verbatim>\<open>h.broadcastToChat <- m\<close>\<close>

definition send_broadcastToChat :: "world \<Rightarrow> chatBroadcastMessage \<Rightarrow> fault + world" where
  "send_broadcastToChat w m =
     and_then (hub_send (broadcastToChat (hub w)) m)
       (\<lambda>ch. Inr (w\<lparr>hub := (hub w)\<lparr>broadcastToChat := ch\<rparr>\<rparr>))"

definition broadcastUserOnline :: "world \<Rightarrow> uuid \<Rightarrow> string \<Rightarrow> fault + world" where
  "broadcastUserOnline w u name =
     send_broadcast w
       \<lparr>bm_message = mustMarshal \<lparr>Type = MessageTypeUserOnline,
                                   Payload = PUserStatus u name True, RequestID = []\<rparr>,
        bm_excludeID = u, bm_skipCheck = False\<rparr>"

definition broadcastUserOffline :: "world \<Rightarrow> uuid \<Rightarrow> fault + world" where
  "broadcastUserOffline w u =
     send_broadcast w
       \<lparr>bm_message = mustMarshal \<lparr>Type = MessageTypeUserOffline,
                                   Payload = PUserStatus u [] False, RequestID = []\<rparr>,
        bm_excludeID = u, bm_skipCheck = False\<rparr>"

text \<open>\<^verbatim>\<open>Hub.BroadcastToChat\<close>: the exclusion id is always \<^verbatim>\<open>uuid.Nil\<close>.\<close>

definition BroadcastToChat :: "world \<Rightarrow> uuid \<Rightarrow> WSMessage \<Rightarrow> bool \<Rightarrow> fault + world" where
  "BroadcastToChat w chatID msg excludeSelf =
     send_broadcastToChat w
       \<lparr>cbm_chatID = chatID, cbm_message = mustMarshal msg,
        cbm_excludeID = uuid_Nil, cbm_skipCheck = (\<not> excludeSelf)\<rparr>"

definition registerClient :: "world \<Rightarrow> cref \<Rightarrow> fault + world" where
  "registerClient w c =
     and_then
       (case map_of (clients (hub w)) (userID (heap w c)) of
          Some existing \<Rightarrow> close_send w existing
        | None \<Rightarrow> Inr w)
       (\<lambda>w1. let w2 = set_clients w1 (AList.update (userID (heap w1 c)) c (clients (hub w1)));
                  w3 = w2\<lparr>db := SetOnline (db w2) (userID (heap w2 c)) True\<rparr>
              in broadcastUserOnline w3 (userID (heap w3 c)) (username (heap w3 c)))"

definition unsubscribeFromChat :: "world \<Rightarrow> cref \<Rightarrow> uuid \<Rightarrow> world" where
  "unsubscribeFromChat w c chatID =
     Unsubscribe
       (case map_of (clientsByChat (hub w)) chatID of
          Some cs \<Rightarrow>
            (let cs' = AList.delete (userID (heap w c)) cs
             in if length cs' = 0
                then set_clientsByChat w (AList.delete chatID (clientsByChat (hub w)))
                else set_clientsByChat w (AList.update chatID cs' (clientsByChat (hub w))))
        | None \<Rightarrow> w)
       c chatID"

definition unregisterClient :: "world \<Rightarrow> cref \<Rightarrow> fault + world" where
  "unregisterClient w c =
     (case map_of (clients (hub w)) (userID (heap w c)) of
        Some _ \<Rightarrow>
          and_then (close_send (set_clients w (AList.delete (userID (heap w c)) (clients (hub w)))) c)
            (\<lambda>w1. let w2 = fold (\<lambda>chatID v. unsubscribeFromChat v c chatID)
                               (subscribed (heap w1 c)) w1;
                       w3 = w2\<lparr>db := SetOnline (db w2) (userID (heap w2 c)) False\<rparr>
                   in broadcastUserOffline w3 (userID (heap w3 c)))
      | None \<Rightarrow> Inr w)"

text \<open>
  The body of both fan-out loops for one client: queue the bytes, or, when the
  queue is full, close it and delete the entry of the client's user id from
  \<^verbatim>\<open>h.clients\<close>.
\<close>

definition deliver :: "bytes \<Rightarrow> bool \<Rightarrow> uuid \<Rightarrow> cref \<Rightarrow> world \<Rightarrow> fault + world" where
  "deliver m skipCheck excludeID c w =
     (if skipCheck \<or> userID (heap w c) \<noteq> excludeID
      then and_then (try_send (send (heap w c)) m)
             (\<lambda>r. case r of
                Some ch \<Rightarrow> Inr (set_send w c ch)
              | None \<Rightarrow> and_then (close_send w c)
                  (\<lambda>w1. Inr (set_clients w1
                               (AList.delete (userID (heap w1 c)) (clients (hub w1))))))
      else Inr w)"

fun fanout :: "bytes \<Rightarrow> bool \<Rightarrow> uuid \<Rightarrow> cref list \<Rightarrow> world \<Rightarrow> fault + world" where
  "fanout m skipCheck excludeID [] w = Inr w"
| "fanout m skipCheck excludeID (c # cs) w =
     and_then (deliver m skipCheck excludeID c w) (fanout m skipCheck excludeID cs)"

text \<open>
  \<^verbatim>\<open>handleBroadcast\<close> ranges over \<^verbatim>\<open>h.clients\<close> and deletes only the entry it is
  visiting, so the range visits the entries present at its start.
\<close>

definition handleBroadcast :: "world \<Rightarrow> broadcastMessage \<Rightarrow> fault + world" where
  "handleBroadcast w msg =
     fanout (bm_message msg) (bm_skipCheck msg) (bm_excludeID msg)
       (map snd (clients (hub w))) w"

definition handleBroadcastToChat :: "world \<Rightarrow> chatBroadcastMessage \<Rightarrow> fault + world" where
  "handleBroadcastToChat w msg =
     (case map_of (clientsByChat (hub w)) (cbm_chatID msg) of
        None \<Rightarrow> Inr w
      | Some cs \<Rightarrow>
          fanout (cbm_message msg) (cbm_skipCheck msg) (cbm_excludeID msg) (map snd cs) w)"

text \<open>The \<^verbatim>\<open>message\<close> frame of a stored message, as \<^verbatim>\<open>sendUnreadMessages\<close> builds it.\<close>

definition history_frame :: "repo \<Rightarrow> Message \<Rightarrow> WSMessage" where
  "history_frame r msg =
     (let sender = find (\<lambda>x. user_ID x = SenderID msg) (users r)
      in \<lparr>Type = MessageTypeMessage,
          Payload = PMessage
            \<lparr>mp_ID = ID msg, mp_ChatID = ChatID msg, mp_SenderID = SenderID msg,
             mp_SenderName = (case sender of None \<Rightarrow> [] | Some u \<Rightarrow> GetFullName u),
             mp_SenderAvatar = (case sender of None \<Rightarrow> [] | Some u \<Rightarrow> AvatarURL u),
             mp_Content = Content msg, mp_MessageType = MsgType msg,
             mp_MediaURL = MediaURL msg, mp_ReplyToID = None, mp_IsEdited = IsEdited msg,
             mp_IsDeleted = IsDeleted msg, mp_Status = Status msg,
             mp_CreatedAt = CreatedAt msg\<rparr>,
          RequestID = []\<rparr>)"

fun Send_each :: "world \<Rightarrow> cref \<Rightarrow> WSMessage list \<Rightarrow> fault + world" where
  "Send_each w c [] = Inr w"
| "Send_each w c (f # fs) = and_then (Send w c f) (\<lambda>w'. Send_each w' c fs)"

definition sendUnreadMessages :: "world \<Rightarrow> cref \<Rightarrow> uuid \<Rightarrow> fault + world" where
  "sendUnreadMessages w c chatID =
     (case GetChatMessages (db w) chatID 50 0 of
        Inl e \<Rightarrow> Inr w
      | Inr ms \<Rightarrow> Send_each w c (map (history_frame (db w)) ms))"

text \<open>
  \<^verbatim>\<open>Hub.SubscribeToChat\<close> returns the error of the access check, or nil after it
  has entered the client in the chat's map and replayed the history.
\<close>

definition SubscribeToChat :: "world \<Rightarrow> cref \<Rightarrow> uuid \<Rightarrow> fault + (err option \<times> world)" where
  "SubscribeToChat w c chatID =
     (case GetChat (db w) chatID (userID (heap w c)) of
        Inl e \<Rightarrow> Inr (Some e, w)
      | Inr _ \<Rightarrow>
          (let w1 = (case map_of (clientsByChat (hub w)) chatID of
                       None \<Rightarrow> set_clientsByChat w (AList.update chatID [] (clientsByChat (hub w)))
                     | Some _ \<Rightarrow> w);
               cs = (case map_of (clientsByChat (hub w1)) chatID of None \<Rightarrow> [] | Some cs \<Rightarrow> cs);
               w2 = set_clientsByChat w1
                      (AList.update chatID (AList.update (userID (heap w1 c)) c cs)
                         (clientsByChat (hub w1)));
               w3 = Subscribe w2 c chatID
           in and_then (sendUnreadMessages w3 c chatID) (\<lambda>w4. Inr (None, w4))))"

definition UnsubscribeFromChat :: "world \<Rightarrow> cref \<Rightarrow> uuid \<Rightarrow> world" where
  "UnsubscribeFromChat w c chatID = unsubscribeFromChat w c chatID"

section \<open>Intent handlers\<close>

definition handleSendMessage :: "world \<Rightarrow> cref \<Rightarrow> WSMessage \<Rightarrow> fault + world" where
  "handleSendMessage w c msg =
     and_then (assert_RawMessage (Payload msg))
       (\<lambda>raw. case Unmarshal_SendMessagePayload raw of
          None \<Rightarrow> SendError w c ''invalid_payload'' ''Failed to parse payload''
        | Some p \<Rightarrow>
            (case uuid_Parse (smp_ChatID p) of
               None \<Rightarrow> SendError w c ''invalid_chat_id'' ''Invalid chat ID''
             | Some chatID \<Rightarrow>
                 (let replyToID = (case smp_ReplyToID p of
                                     None \<Rightarrow> None | Some s \<Rightarrow> uuid_Parse s);
                      messageType = (if smp_MessageType p \<noteq> [] then smp_MessageType p
                                     else MessageTypeText)
                  in case SendMessage (db w) chatID (userID (heap w c)) (smp_Content p)
                            messageType (smp_MediaURL p) replyToID of
                       Inl e \<Rightarrow> SendError w c ''send_failed'' (err_Error e)
                     | Inr (sentMsg, r) \<Rightarrow>
                         (let w1 = w\<lparr>db := r\<rparr>;
                              user = (case user_GetByID (db w1) (userID (heap w1 c)) of
                                        Inl e \<Rightarrow> None | Inr u \<Rightarrow> u);
                              response =
                                \<lparr>Type = MessageTypeMessage,
                                 Payload = PMessage
                                   \<lparr>mp_ID = ID sentMsg, mp_ChatID = ChatID sentMsg,
                                    mp_SenderID = SenderID sentMsg,
                                    mp_SenderName = (case user of
                                        None \<Rightarrow> username (heap w1 c)
                                      | Some u \<Rightarrow> GetFullName u),
                                    mp_SenderAvatar = (case user of
                                        None \<Rightarrow> [] | Some u \<Rightarrow> AvatarURL u),
                                    mp_Content = Content sentMsg,
                                    mp_MessageType = MsgType sentMsg,
                                    mp_MediaURL = MediaURL sentMsg, mp_ReplyToID = None,
                                    mp_IsEdited = IsEdited sentMsg,
                                    mp_IsDeleted = IsDeleted sentMsg,
                                    mp_Status = Status sentMsg,
                                    mp_CreatedAt = CreatedAt sentMsg\<rparr>,
                                 RequestID = []\<rparr>
                          in and_then (Send w1 c response)
                               (\<lambda>w2. BroadcastToChat w2 chatID response True)))))"

definition handleReadMessage :: "world \<Rightarrow> cref \<Rightarrow> WSMessage \<Rightarrow> fault + world" where
  "handleReadMessage w c msg =
     and_then (assert_RawMessage (Payload msg))
       (\<lambda>raw. case Unmarshal_string_struct ''message_id'' raw of
          None \<Rightarrow> SendError w c ''invalid_payload'' ''Failed to parse payload''
        | Some s \<Rightarrow>
            (case uuid_Parse s of
               None \<Rightarrow> SendError w c ''invalid_message_id'' ''Invalid message ID''
             | Some messageID \<Rightarrow>
                 (case message_GetByID (db w) messageID of
                    Inl e \<Rightarrow> SendError w c ''message_not_found'' ''Message not found''
                  | Inr None \<Rightarrow> SendError w c ''message_not_found'' ''Message not found''
                  | Inr (Some message) \<Rightarrow>
                      (let w1 = (case MarkAsRead (db w) messageID (userID (heap w c)) of
                                   Inl e \<Rightarrow> w | Inr r \<Rightarrow> w\<lparr>db := r\<rparr>);
                           response =
                             \<lparr>Type = MessageTypeMessageRead,
                              Payload = PMessageRead messageID (userID (heap w1 c)),
                              RequestID = []\<rparr>
                       in BroadcastToChat w1 (ChatID message) response False))))"

definition handleReadChat :: "world \<Rightarrow> cref \<Rightarrow> WSMessage \<Rightarrow> fault + world" where
  "handleReadChat w c msg =
     and_then (assert_RawMessage (Payload msg))
       (\<lambda>raw. case Unmarshal_string_struct ''chat_id'' raw of
          None \<Rightarrow> SendError w c ''invalid_payload'' ''Failed to parse payload''
        | Some s \<Rightarrow>
            (case uuid_Parse s of
               None \<Rightarrow> SendError w c ''invalid_chat_id'' ''Invalid chat ID''
             | Some chatID \<Rightarrow>
                 (case MarkChatAsRead (db w) chatID (userID (heap w c)) of
                    Inl e \<Rightarrow> Inr w
                  | Inr r \<Rightarrow> Inr (w\<lparr>db := r\<rparr>))))"

definition handleTyping :: "world \<Rightarrow> cref \<Rightarrow> WSMessage \<Rightarrow> bool \<Rightarrow> fault + world" where
  "handleTyping w c msg isTyping =
     and_then (assert_RawMessage (Payload msg))
       (\<lambda>raw. case Unmarshal_TypingPayload raw of
          None \<Rightarrow> SendError w c ''invalid_payload'' ''Failed to parse payload''
        | Some p \<Rightarrow>
            (case uuid_Parse (fst p) of
               None \<Rightarrow> SendError w c ''invalid_chat_id'' ''Invalid chat ID''
             | Some chatID \<Rightarrow>
                 (let w1 = SetTyping w c chatID isTyping;
                      response =
                        \<lparr>Type = MessageTypeTyping,
                         Payload = PTypingStatus chatID (userID (heap w1 c))
                                     (username (heap w1 c)) isTyping,
                         RequestID = []\<rparr>
                  in BroadcastToChat w1 chatID response True)))"

definition handleSubscribeChat :: "world \<Rightarrow> cref \<Rightarrow> WSMessage \<Rightarrow> fault + world" where
  "handleSubscribeChat w c msg =
     and_then (assert_RawMessage (Payload msg))
       (\<lambda>raw. case Unmarshal_string_struct ''chat_id'' raw of
          None \<Rightarrow> SendError w c ''invalid_payload'' ''Failed to parse payload''
        | Some s \<Rightarrow>
            (case uuid_Parse s of
               None \<Rightarrow> SendError w c ''invalid_chat_id'' ''Invalid chat ID''
             | Some chatID \<Rightarrow>
                 and_then (SubscribeToChat w c chatID)
                   (\<lambda>r. case fst r of
                      Some e \<Rightarrow> SendError (snd r) c ''subscribe_failed'' (err_Error e)
                    | None \<Rightarrow> Inr (snd r))))"

definition handleUnsubscribeChat :: "world \<Rightarrow> cref \<Rightarrow> WSMessage \<Rightarrow> fault + world" where
  "handleUnsubscribeChat w c msg =
     and_then (assert_RawMessage (Payload msg))
       (\<lambda>raw. case Unmarshal_string_struct ''chat_id'' raw of
          None \<Rightarrow> SendError w c ''invalid_payload'' ''Failed to parse payload''
        | Some s \<Rightarrow>
            (case uuid_Parse s of
               None \<Rightarrow> SendError w c ''invalid_chat_id'' ''Invalid chat ID''
             | Some chatID \<Rightarrow> Inr (UnsubscribeFromChat w c chatID)))"

definition handleMessage :: "world \<Rightarrow> cref \<Rightarrow> WSMessage \<Rightarrow> fault + world" where
  "handleMessage w c msg =
     (if Type msg = MessageTypeSendMessage then handleSendMessage w c msg
      else if Type msg = MessageTypeReadMessage then handleReadMessage w c msg
      else if Type msg = MessageTypeReadChat then handleReadChat w c msg
      else if Type msg = MessageTypeTypingStart then handleTyping w c msg True
      else if Type msg = MessageTypeTypingStop then handleTyping w c msg False
      else if Type msg = MessageTypeSubscribeChat then handleSubscribeChat w c msg
      else if Type msg = MessageTypeUnsubscribeChat then handleUnsubscribeChat w c msg
      else SendError w c ''unknown_type'' ''Unknown message type'')"

text \<open>
  One iteration of \<^verbatim>\<open>Hub.Run\<close>: the channel the select receives from.  The two
  unbuffered channels hand over a client; the two buffered ones deliver their
  oldest queued message.
\<close>

datatype hub_input = FromRegister cref | FromUnregister cref | FromBroadcast | FromBroadcastToChat

fun Run :: "world \<Rightarrow> hub_input \<Rightarrow> fault + world" where
  "Run w (FromRegister c) = registerClient w c"
| "Run w (FromUnregister c) = unregisterClient w c"
| "Run w FromBroadcast =
     (case broadcast (hub w) of
        [] \<Rightarrow> Inl Blocked
      | m # ms \<Rightarrow> handleBroadcast (w\<lparr>hub := (hub w)\<lparr>broadcast := ms\<rparr>\<rparr>) m)"
| "Run w FromBroadcastToChat =
     (case broadcastToChat (hub w) of
        [] \<Rightarrow> Inl Blocked
      | m # ms \<Rightarrow> handleBroadcastToChat (w\<lparr>hub := (hub w)\<lparr>broadcastToChat := ms\<rparr>\<rparr>) m)"

fun Run_all :: "world \<Rightarrow> hub_input list \<Rightarrow> fault + world" where
  "Run_all w [] = Inr w"
| "Run_all w (i # is) = and_then (Run w i) (\<lambda>w'. Run_all w' is)"

section \<open>The reader task (Client.Read)\<close>

text \<open>
  One turn of the reader loop on a received frame.  The source reports a frame
  that is not JSON through \<^verbatim>\<open>c.sendError\<close>; the client's method of that
  purpose is \<^verbatim>\<open>SendError\<close>.
\<close>

definition Read_frame :: "(string \<Rightarrow> bool) \<Rightarrow> world \<Rightarrow> cref \<Rightarrow> raw_json \<Rightarrow> fault + world" where
  "Read_frame is_time w c message =
     (case Unmarshal_WSMessage is_time message of
        None \<Rightarrow> SendError w c ''invalid_json'' ''Failed to parse message''
      | Some wsMsg \<Rightarrow> handleMessage w c wsMsg)"

text \<open>
  The deferred function of the reader: it hands the client to the hub on the
  unbuffered \<^verbatim>\<open>Unregister\<close> channel, where the hub loop runs
  \<^verbatim>\<open>unregisterClient\<close>, and then sends a \<^verbatim>\<open>user_offline\<close> broadcast of its
  own.  The two sends onto \<^verbatim>\<open>h.broadcast\<close> may happen in either order; both
  messages are the same.
\<close>

definition Read_deferred :: "world \<Rightarrow> cref \<Rightarrow> fault + world" where
  "Read_deferred w c =
     and_then (Run w (FromUnregister c)) (\<lambda>w1. broadcastUserOffline w1 (userID (heap w1 c)))"

section \<open>Definitions for stating the results\<close>

text \<open>
  The spec's words for the replay window: the last \<open>n\<close> messages of the chat that
  are not deleted, oldest first.
\<close>

definition spec_recent_messages :: "repo \<Rightarrow> uuid \<Rightarrow> nat \<Rightarrow> Message list" where
  "spec_recent_messages r chatID n =
     (let ms = sort_key CreatedAt (filter (\<lambda>m. ChatID m = chatID \<and> \<not> IsDeleted m) (messages r))
      in drop (length ms - n) ms)"

text \<open>
  The state \<^verbatim>\<open>SubscribeToChat\<close> reaches between the access check and the replay:
  the client is in the chat's map and the chat in the client's subscription set.
\<close>

definition enter_chat :: "world \<Rightarrow> cref \<Rightarrow> uuid \<Rightarrow> world" where
  "enter_chat w c chatID =
     (let w1 = (case map_of (clientsByChat (hub w)) chatID of
                  None \<Rightarrow> set_clientsByChat w (AList.update chatID [] (clientsByChat (hub w)))
                | Some _ \<Rightarrow> w);
          cs = (case map_of (clientsByChat (hub w1)) chatID of None \<Rightarrow> [] | Some cs \<Rightarrow> cs);
          w2 = set_clientsByChat w1
                 (AList.update chatID (AList.update (userID (heap w1 c)) c cs)
                    (clientsByChat (hub w1)))
      in Subscribe w2 c chatID)"

section \<open>Scenarios\<close>

text \<open>
  Concrete users, a chat and a database, and the steps that drive the hub from
  its initial state, for evaluating the code on explicit inputs.
\<close>

definition alice :: uuid where "alice = ''00000000-0000-0000-0000-00000000000a''"
definition bob :: uuid where "bob = ''00000000-0000-0000-0000-00000000000b''"
definition c1 :: uuid where "c1 = ''00000000-0000-0000-0000-0000000000c1''"
definition c2 :: uuid where "c2 = ''00000000-0000-0000-0000-0000000000c2''"
definition m1 :: uuid where "m1 = ''00000000-0000-0000-0000-000000000001''"
definition m2 :: uuid where "m2 = ''00000000-0000-0000-0000-000000000002''"
definition m3 :: uuid where "m3 = ''00000000-0000-0000-0000-000000000003''"
definition m4 :: uuid where "m4 = ''00000000-0000-0000-0000-000000000004''"
definition m5 :: uuid where "m5 = ''00000000-0000-0000-0000-000000000005''"
definition m6 :: uuid where "m6 = ''00000000-0000-0000-0000-000000000006''"

definition stored :: "uuid \<Rightarrow> uuid \<Rightarrow> uuid \<Rightarrow> string \<Rightarrow> bool \<Rightarrow> nat \<Rightarrow> Message" where
  "stored i chat sender text deleted t =
     \<lparr>ID = i, ChatID = chat, SenderID = sender, Content = text, MsgType = MessageTypeText,
      MediaURL = None, ReplyToID = None, IsEdited = False, IsDeleted = deleted,
      Status = MessageStatusSent, CreatedAt = t\<rparr>"

definition db0 :: repo where
  "db0 = \<lparr>users = [], chats = [c1, c2],
           chat_members = [(c1, alice), (c1, bob), (c2, bob)], messages = [],
           message_reads = [], next_id = m6, now = 9, failing = (\<lambda>_. False)\<rparr>"

text \<open>
  A chat \<open>c1\<close> with four messages stored out of order (one by Alice, three by Bob,
  one of Bob's deleted), and one message of another chat.
\<close>

definition db1 :: repo where
  "db1 = db0\<lparr>messages :=
           [stored m3 c1 bob ''three'' False 3, stored m1 c1 alice ''one'' False 1,
            stored m4 c2 bob ''elsewhere'' False 4, stored m2 c1 bob ''two'' True 2,
            stored m5 c1 bob ''five'' False 5]\<rparr>"

definition world0 :: world where
  "world0 = \<lparr>heap = (\<lambda>_. NewClient uuid_Nil []), hub = NewHub, db = db0\<rparr>"

text \<open>
  The end of \<^verbatim>\<open>HandleWebSocket\<close>, after the token check and the upgrade: a new
  client at a fresh reference is handed to the hub on \<^verbatim>\<open>Register\<close>.
\<close>

definition HandleWebSocket :: "cref \<Rightarrow> uuid \<Rightarrow> string \<Rightarrow> world \<Rightarrow> fault + world" where
  "HandleWebSocket c u name w =
     Run (w\<lparr>heap := (heap w)(c := NewClient u name)\<rparr>) (FromRegister c)"

definition subscribe :: "cref \<Rightarrow> uuid \<Rightarrow> world \<Rightarrow> fault + world" where
  "subscribe c chatID w = and_then (SubscribeToChat w c chatID) (\<lambda>r. Inr (snd r))"

definition hub_turn :: "hub_input \<Rightarrow> world \<Rightarrow> fault + world" where
  "hub_turn i w = Run w i"

definition steps :: "(world \<Rightarrow> fault + world) list \<Rightarrow> world \<Rightarrow> fault + world" where
  "steps fs w = fold (\<lambda>f r. and_then r f) fs (Inr w)"

definition observe :: "(world \<Rightarrow> 'a) \<Rightarrow> fault + world \<Rightarrow> fault + 'a" where
  "observe f r = (case r of Inl e \<Rightarrow> Inl e | Inr w \<Rightarrow> Inr (f w))"

definition outcome :: "fault + world \<Rightarrow> fault option" where
  "outcome r = (case r of Inl e \<Rightarrow> Some e | Inr w \<Rightarrow> None)"

definition queue_types :: "cref \<Rightarrow> world \<Rightarrow> MessageType list" where
  "queue_types c w = map bytes_type (buf (send (heap w c)))"

definition count_type :: "MessageType \<Rightarrow> cref \<Rightarrow> world \<Rightarrow> nat" where
  "count_type t c w = length (filter (\<lambda>b. bytes_type b = t) (buf (send (heap w c))))"

definition typing_frame :: WSMessage where
  "typing_frame = \<lparr>Type = MessageTypeTyping, Payload = PTypingStatus c1 bob ''bob'' True,
                    RequestID = []\<rparr>"

text \<open>A session whose writer has not drained any of 256 queued frames.\<close>

definition slow_consumer :: "cref \<Rightarrow> world \<Rightarrow> fault + world" where
  "slow_consumer c w =
     Inr (set_send w c ((send (heap w c))\<lparr>buf := replicate 256 (Bytes typing_frame)\<rparr>))"

text \<open>Alice logs in on session 1 and subscribes to \<open>c1\<close>; then she logs in again on session 2.\<close>

definition alice_subscribed :: "fault + world" where
  "alice_subscribed =
     steps [HandleWebSocket 1 alice ''alice'', hub_turn FromBroadcast, subscribe 1 c1] world0"

definition duplicate_login :: "fault + world" where
  "duplicate_login =
     and_then alice_subscribed
       (steps [HandleWebSocket 2 alice ''alice'', hub_turn FromBroadcast])"

text \<open>Alice (session 1) and Bob (session 2) are both subscribed to \<open>c1\<close>.\<close>

definition alice_and_bob :: "fault + world" where
  "alice_and_bob =
     steps [HandleWebSocket 1 alice ''alice'', hub_turn FromBroadcast,
            HandleWebSocket 2 bob ''bob'', hub_turn FromBroadcast,
            subscribe 1 c1, subscribe 2 c1] world0"

text \<open>The frame \<^verbatim>\<open>{"type":"send_message","payload":{"chat_id":c1,"content":"hi"}}\<close>.\<close>

definition send_frame :: raw_json where
  "send_frame =
     Some (JObject [(''type'', JString ''send_message''),
                    (''payload'', JObject [(''chat_id'', JString c1),
                                           (''content'', JString ''hi'')])])"

text \<open>The same intent as an envelope whose payload is a \<^verbatim>\<open>json.RawMessage\<close>.\<close>

definition send_intent :: WSMessage where
  "send_intent =
     \<lparr>Type = MessageTypeSendMessage,
      Payload = RawMessage (Some (JObject [(''chat_id'', JString c1),
                                           (''content'', JString ''hi'')])),
      RequestID = []\<rparr>"

text \<open>Alice is registered on session 1; the database holds the history of \<open>db1\<close>.\<close>

definition alice_online :: world where
  "alice_online =
     \<lparr>heap = (\<lambda>_. NewClient uuid_Nil [])(1 := NewClient alice ''alice''),
      hub = NewHub\<lparr>clients := [(alice, 1)]\<rparr>, db = db1\<rparr>"

text \<open>The message id a queued \<^verbatim>\<open>message\<close> frame carries.\<close>

definition frame_id :: "bytes \<Rightarrow> string" where
  "frame_id b = (case b of Bytes f \<Rightarrow> (case Payload f of PMessage p \<Rightarrow> mp_ID p | _ \<Rightarrow> []))"

text \<open>A \<^verbatim>\<open>read_message\<close> intent for message \<open>m3\<close> with a \<^verbatim>\<open>json.RawMessage\<close> payload.\<close>

definition read_intent :: WSMessage where
  "read_intent =
     \<lparr>Type = MessageTypeReadMessage,
      Payload = RawMessage (Some (JObject [(''message_id'', JString m3)])), RequestID = []\<rparr>"

text \<open>The frame \<^verbatim>\<open>{"type":"read_message","payload":{"message_id":m3}}\<close>.\<close>

definition read_frame :: raw_json where
  "read_frame =
     Some (JObject [(''type'', JString ''read_message''),
                    (''payload'', JObject [(''message_id'', JString m3)])])"

text \<open>A session with \<open>n\<close> frames queued that its writer has not drained.\<close>

definition queued :: "nat \<Rightarrow> cref \<Rightarrow> world \<Rightarrow> fault + world" where
  "queued n c w =
     Inr (set_send w c ((send (heap w c))\<lparr>buf := replicate n (Bytes typing_frame)\<rparr>))"

text \<open>Alice online while the message query of the database fails.\<close>

definition alice_query_down :: world where
  "alice_query_down = alice_online\<lparr>db := db1\<lparr>failing := (\<lambda>op. op = OpGetChatMessages)\<rparr>\<rparr>"

text \<open>Alice online with the rows of both users in the database.\<close>

definition alice_named :: world where
  "alice_named =
     alice_online\<lparr>db := db1\<lparr>users :=
       [\<lparr>user_ID = alice, Username = ''alice'', FirstName = ''Alice'', LastName = ''Liddell'',
         AvatarURL = ''a.png'', IsOnline = True\<rparr>,
        \<lparr>user_ID = bob, Username = ''bob'', FirstName = [], LastName = [],
         AvatarURL = [], IsOnline = False\<rparr>]\<rparr>\<rparr>"

section \<open>Supporting lemmas\<close>

subsection \<open>Sending to one session\<close>

lemma set_send_twice: "set_send (set_send w c a) c b = set_send w c b"
  by (simp add: set_send_def)

lemma set_send_same: "set_send w c (send (heap w c)) = w"
  by (simp add: set_send_def)

lemma heap_set_send: "heap (set_send w c ch) = (heap w)(c := (heap w c)\<lparr>send := ch\<rparr>)"
  by (simp add: set_send_def)

lemma hub_set_send: "hub (set_send w c ch) = hub w"
  by (simp add: set_send_def)

lemma db_set_send: "db (set_send w c ch) = db w"
  by (simp add: set_send_def)

lemma Send_result: "Send w c m = Inr w' \<Longrightarrow> \<exists>ch. w' = set_send w c ch"
  by (auto simp: Send_def and_then_def try_send_def close_send_def close_chan_def
      split: if_splits option.splits sum.splits)

lemma Send_each_result: "Send_each w c fs = Inr w' \<Longrightarrow> \<exists>ch. w' = set_send w c ch"
proof (induction fs arbitrary: w)
  case Nil
  then show ?case by (metis Send_each.simps(1) set_send_same sum.inject(2))
next
  case (Cons f fs)
  from Cons.prems obtain w1 where s: "Send w c f = Inr w1" and r: "Send_each w1 c fs = Inr w'"
    by (auto simp: and_then_def split: sum.splits)
  from Send_result[OF s] obtain ch1 where "w1 = set_send w c ch1" by blast
  moreover from Cons.IH[OF r] obtain ch2 where "w' = set_send w1 c ch2" by blast
  ultimately show ?case by (metis set_send_twice)
qed

lemma Send_open:
  assumes "\<not> closed (send (heap w c))" "length (buf (send (heap w c))) < cap (send (heap w c))"
  shows "Send w c m = Inr (set_send w c ((send (heap w c))\<lparr>buf := buf (send (heap w c)) @ [Bytes m]\<rparr>))"
  using assms by (simp add: Send_def and_then_def try_send_def)

lemma Send_full_closes:
  assumes "\<not> closed (send (heap w c))" "cap (send (heap w c)) \<le> length (buf (send (heap w c)))"
  shows "Send w c m = Inr (set_send w c ((send (heap w c))\<lparr>closed := True\<rparr>))"
  using assms by (simp add: Send_def and_then_def try_send_def close_send_def close_chan_def)

lemma Send_closed_panics:
  "closed (send (heap w c)) \<Longrightarrow> Send w c m = Inl (Panic SendOnClosedChannel)"
  by (simp add: Send_def and_then_def try_send_def)

lemma Send_each_open:
  "\<not> closed (send (heap w c)) \<Longrightarrow>
   length (buf (send (heap w c))) + length fs \<le> cap (send (heap w c)) \<Longrightarrow>
   Send_each w c fs =
     Inr (set_send w c ((send (heap w c))\<lparr>buf := buf (send (heap w c)) @ map Bytes fs\<rparr>))"
proof (induction fs arbitrary: w)
  case Nil
  then show ?case by (simp add: set_send_def)
next
  case (Cons f fs)
  let ?w1 = "set_send w c ((send (heap w c))\<lparr>buf := buf (send (heap w c)) @ [Bytes f]\<rparr>)"
  have s: "Send w c f = Inr ?w1" using Cons.prems by (intro Send_open) auto
  have o: "\<not> closed (send (heap ?w1 c))" using Cons.prems by (simp add: set_send_def)
  have l: "length (buf (send (heap ?w1 c))) + length fs \<le> cap (send (heap ?w1 c))"
    using Cons.prems by (simp add: set_send_def)
  show ?case
    using Cons.IH[OF o l] s by (simp add: and_then_def set_send_def)
qed

lemma GetChatMessages_window:
  "\<not> failing r OpGetChatMessages \<Longrightarrow>
   GetChatMessages r chatID n 0 =
     Inr (drop (length (filter (\<lambda>m. ChatID m = chatID \<and> \<not> IsDeleted m) (messages r)) - n)
            (sort_key CreatedAt (filter (\<lambda>m. ChatID m = chatID \<and> \<not> IsDeleted m) (messages r))))"
  by (simp add: GetChatMessages_def order_desc_def rev_take)

subsection \<open>Subscription\<close>

lemma SubscribeToChat_authorized:
  "GetChat (db w) chatID (userID (heap w c)) = Inr chat \<Longrightarrow>
   SubscribeToChat w c chatID =
     and_then (sendUnreadMessages (enter_chat w c chatID) c chatID) (\<lambda>w4. Inr (None, w4))"
  by (simp add: SubscribeToChat_def enter_chat_def Let_def)

lemma SubscribeToChat_refused:
  "GetChat (db w) chatID (userID (heap w c)) = Inl e \<Longrightarrow>
   SubscribeToChat w c chatID = Inr (Some e, w)"
  by (simp add: SubscribeToChat_def)

lemma enter_chat_heap:
  "heap (enter_chat w c chatID) =
     (heap w)(c := (heap w c)\<lparr>subscribed := List.insert chatID (subscribed (heap w c))\<rparr>)"
  by (simp add: enter_chat_def Let_def Subscribe_def set_clientsByChat_def split: option.splits)

lemma enter_chat_db: "db (enter_chat w c chatID) = db w"
  by (simp add: enter_chat_def Let_def Subscribe_def set_clientsByChat_def split: option.splits)

lemma enter_chat_hub:
  "hub (enter_chat w c chatID) =
     (hub w)\<lparr>clientsByChat :=
        AList.update chatID
          (AList.update (userID (heap w c)) c
             (case map_of (clientsByChat (hub w)) chatID of None \<Rightarrow> [] | Some cs \<Rightarrow> cs))
          (clientsByChat (hub w))\<rparr>"
  by (simp add: enter_chat_def Let_def Subscribe_def set_clientsByChat_def update_conv'
      split: option.splits)

lemma history_frame_type: "bytes_type (Bytes (history_frame r m)) = MessageTypeMessage"
  by (simp add: bytes_type_def history_frame_def Let_def)

lemma sorted_spec_recent_messages:
  "sorted (map CreatedAt (spec_recent_messages r chatID n))"
  by (simp add: spec_recent_messages_def Let_def drop_map[symmetric])

lemma set_spec_recent_messages:
  "set (spec_recent_messages r chatID n) \<subseteq> {m \<in> set (messages r). ChatID m = chatID \<and> \<not> IsDeleted m}"
  unfolding spec_recent_messages_def Let_def
  using set_drop_subset[of _ "sort_key CreatedAt (filter (\<lambda>m. ChatID m = chatID \<and> \<not> IsDeleted m) (messages r))"]
  by auto

lemma length_spec_recent_messages:
  "length (spec_recent_messages r chatID n) =
     min n (length (filter (\<lambda>m. ChatID m = chatID \<and> \<not> IsDeleted m) (messages r)))"
  by (simp add: spec_recent_messages_def Let_def)

lemma SubscribeToChat_open:
  assumes auth: "GetChat (db w) chatID (userID (heap w c)) = Inr chat"
    and up: "\<not> failing (db w) OpGetChatMessages"
    and opn: "\<not> closed (send (heap w c))"
    and room: "length (buf (send (heap w c))) + length (spec_recent_messages (db w) chatID 50)
                 \<le> cap (send (heap w c))"
  shows "SubscribeToChat w c chatID =
     Inr (None, set_send (enter_chat w c chatID) c
       ((send (heap w c))\<lparr>buf := buf (send (heap w c)) @
          map (\<lambda>m. Bytes (history_frame (db w) m)) (spec_recent_messages (db w) chatID 50)\<rparr>))"
proof -
  let ?w3 = "enter_chat w c chatID"
  let ?ms = "spec_recent_messages (db w) chatID 50"
  let ?fs = "map (history_frame (db w)) ?ms"
  have g: "GetChatMessages (db ?w3) chatID 50 0 = Inr ?ms"
    using up by (simp add: enter_chat_db GetChatMessages_window spec_recent_messages_def Let_def)
  have u: "sendUnreadMessages ?w3 c chatID = Send_each ?w3 c ?fs"
    using g by (simp add: sendUnreadMessages_def enter_chat_db)
  have o: "\<not> closed (send (heap ?w3 c))" using opn by (simp add: enter_chat_heap)
  have l: "length (buf (send (heap ?w3 c))) + length ?fs \<le> cap (send (heap ?w3 c))"
    using room by (simp add: enter_chat_heap)
  show ?thesis
    using SubscribeToChat_authorized[OF auth] u Send_each_open[OF o l]
    by (simp add: and_then_def enter_chat_heap comp_def)
qed


lemma sendUnreadMessages_result:
  "sendUnreadMessages w c chatID = Inr w' \<Longrightarrow> \<exists>ch. w' = set_send w c ch"
  by (auto simp: sendUnreadMessages_def split: sum.splits dest: Send_each_result
      intro: exI[of _ "send (heap w c)"] simp: set_send_same)

lemma SubscribeToChat_result:
  assumes "SubscribeToChat w c chatID = Inr (e, w')"
  shows "(\<exists>x. e = Some x \<and> GetChat (db w) chatID (userID (heap w c)) = Inl x \<and> w' = w) \<or>
         (e = None \<and> (\<exists>chat. GetChat (db w) chatID (userID (heap w c)) = Inr chat) \<and>
            (\<exists>ch. w' = set_send (enter_chat w c chatID) c ch))"
proof (cases "GetChat (db w) chatID (userID (heap w c))")
  case (Inl x)
  then show ?thesis using assms by (simp add: SubscribeToChat_refused)
next
  case (Inr chat)
  from assms SubscribeToChat_authorized[OF Inr]
  obtain w4 where "sendUnreadMessages (enter_chat w c chatID) c chatID = Inr w4" "e = None" "w' = w4"
    by (auto simp: and_then_def split: sum.splits)
  then show ?thesis using Inr sendUnreadMessages_result by blast
qed

lemma enter_chat_again:
  "hub (enter_chat (set_send (enter_chat w c chatID) c ch) c chatID) = hub (enter_chat w c chatID)"
  by (simp add: enter_chat_hub hub_set_send heap_set_send enter_chat_heap update_conv')

lemma enter_chat_again_subscribed:
  "subscribed (heap (enter_chat (set_send (enter_chat w c chatID) c ch) c chatID) c)
     = subscribed (heap (enter_chat w c chatID) c)"
  by (simp add: heap_set_send enter_chat_heap)

lemma unsubscribeFromChat_idem:
  "unsubscribeFromChat (unsubscribeFromChat w c chatID) c chatID = unsubscribeFromChat w c chatID"
  by (auto simp: unsubscribeFromChat_def Unsubscribe_def set_clientsByChat_def Let_def
      update_conv' delete_conv' delete_idem split: option.splits)


subsection \<open>Read marks\<close>

lemma set_fold_insert_marks:
  "set (fold (\<lambda>m rs. List.insert (ID m, u) rs) ms rs0) = set rs0 \<union> (\<lambda>m. (ID m, u)) ` set ms"
  by (induction ms arbitrary: rs0) auto

lemma repo_MarkChatAsRead_reads:
  "repo_MarkChatAsRead r chatID u = Inr r' \<Longrightarrow>
   set (message_reads r') =
     set (message_reads r) \<union>
       (\<lambda>m. (ID m, u)) ` {m \<in> set (messages r). ChatID m = chatID \<and> SenderID m \<noteq> u \<and> \<not> IsDeleted m}"
  by (auto simp: repo_MarkChatAsRead_def set_fold_insert_marks split: if_splits)

lemma repo_MarkChatAsRead_cases:
  "repo_MarkChatAsRead r chatID u = (if failing r OpMarkChatAsRead then Inl ErrDB
     else Inr (r\<lparr>message_reads :=
              fold (\<lambda>m rs. List.insert (ID m, u) rs)
                (filter (\<lambda>m. ChatID m = chatID \<and> SenderID m \<noteq> u \<and> \<not> IsDeleted m) (messages r))
                (message_reads r)\<rparr>))"
  by (simp add: repo_MarkChatAsRead_def)


text \<open>
  What \<^verbatim>\<open>handleReadMessage\<close> does once its payload has passed the type
  assertion and names a stored message.
\<close>

lemma handleReadMessage_after_assertion:
  assumes raw: "Payload msg = RawMessage raw"
    and field: "Unmarshal_string_struct ''message_id'' raw = Some s"
    and parse: "uuid_Parse s = Some messageID"
    and found: "message_GetByID (db w) messageID = Inr (Some m)"
    and room: "length (broadcastToChat (hub w)) < 256"
  shows "\<exists>w'. handleReadMessage w c msg = Inr w' \<and>
           (if SenderID m = userID (heap w c) \<or> failing (db w) OpMarkChatAsRead
            then message_reads (db w') = message_reads (db w)
            else set (message_reads (db w')) =
                   set (message_reads (db w)) \<union>
                     (\<lambda>x. (ID x, userID (heap w c))) `
                       {x \<in> set (messages (db w)).
                          ChatID x = ChatID m \<and> SenderID x \<noteq> userID (heap w c) \<and> \<not> IsDeleted x}) \<and>
           broadcastToChat (hub w') =
             broadcastToChat (hub w) @
               [\<lparr>cbm_chatID = ChatID m,
                 cbm_message = Bytes
                   \<lparr>Type = ''message_read'',
                    Payload = PMessageRead messageID (userID (heap w c)), RequestID = []\<rparr>,
                 cbm_excludeID = uuid_Nil, cbm_skipCheck = True\<rparr>]"
  using assms
  by (auto simp: handleReadMessage_def assert_RawMessage_def and_then_def MarkAsRead_def
      repo_MarkChatAsRead_cases set_fold_insert_marks BroadcastToChat_def
      send_broadcastToChat_def hub_send_def mustMarshal_def MessageTypeMessageRead_def Let_def)

subsection \<open>What the fan-out and the registration leave untouched\<close>

lemma deliver_keeps_clientsByChat:
  "deliver m s e c w = Inr w' \<Longrightarrow>
   clientsByChat (hub w') = clientsByChat (hub w) \<and>
   (\<forall>x. subscribed (heap w' x) = subscribed (heap w x))"
  by (auto simp: deliver_def and_then_def try_send_def close_send_def close_chan_def
      set_send_def set_clients_def split: if_splits option.splits sum.splits)

lemma fanout_keeps_clientsByChat:
  "fanout m s e cs w = Inr w' \<Longrightarrow>
   clientsByChat (hub w') = clientsByChat (hub w) \<and>
   (\<forall>x. subscribed (heap w' x) = subscribed (heap w x))"
proof (induction cs arbitrary: w)
  case Nil
  then show ?case by simp
next
  case (Cons c cs)
  from Cons.prems obtain w1 where d: "deliver m s e c w = Inr w1" and f: "fanout m s e cs w1 = Inr w'"
    by (auto simp: and_then_def split: sum.splits)
  from deliver_keeps_clientsByChat[OF d] Cons.IH[OF f] show ?case by simp
qed

lemma registerClient_keeps_clientsByChat:
  "registerClient w c = Inr w' \<Longrightarrow> clientsByChat (hub w') = clientsByChat (hub w)"
  by (auto simp: registerClient_def and_then_def close_send_def close_chan_def set_send_def
      set_clients_def broadcastUserOnline_def send_broadcast_def hub_send_def Let_def
      split: if_splits option.splits sum.splits)

lemma iface_field_not_raw:
  "(\<forall>r. cur \<noteq> RawMessage r) \<Longrightarrow> (\<forall>r. iface_field k cur kvs \<noteq> RawMessage r)"
proof (induction kvs arbitrary: cur)
  case Nil
  then show ?case by simp
next
  case (Cons kv kvs)
  obtain k' v where kv: "kv = (k', v)" by (cases kv)
  have n: "\<forall>r. (case v of JNull \<Rightarrow> NilPayload | _ \<Rightarrow> Decoded v) \<noteq> RawMessage r"
    by (cases v) simp_all
  show ?case using Cons.IH[OF n] Cons.IH[OF Cons.prems] by (simp add: kv)
qed

lemma wire_payload_never_raw:
  "Unmarshal_WSMessage is_time frame = Some m \<Longrightarrow>
   assert_RawMessage (Payload m) = Inl (Panic InterfaceConversion)"
proof -
  assume a: "Unmarshal_WSMessage is_time frame = Some m"
  then obtain kvs where "Payload m = iface_field ''payload'' NilPayload kvs"
    by (auto simp: Unmarshal_WSMessage_def split: option.splits if_splits)
  moreover have "\<forall>r. iface_field ''payload'' NilPayload kvs \<noteq> RawMessage r"
    using iface_field_not_raw[of NilPayload] by simp
  ultimately show ?thesis by (auto simp: assert_RawMessage_def split: payload.splits)
qed

lemma known_intent_from_wire_panics:
  assumes "Unmarshal_WSMessage is_time frame = Some m"
    and "Type m \<in> {MessageTypeSendMessage, MessageTypeReadMessage, MessageTypeReadChat,
           MessageTypeTypingStart, MessageTypeTypingStop, MessageTypeSubscribeChat,
           MessageTypeUnsubscribeChat}"
  shows "Read_frame is_time w c frame = Inl (Panic InterfaceConversion)"
  using assms wire_payload_never_raw[OF assms(1)]
  by (auto simp: Read_frame_def handleMessage_def handleSendMessage_def handleReadMessage_def
      handleReadChat_def handleTyping_def handleSubscribeChat_def handleUnsubscribeChat_def
      and_then_def)

section \<open>Results\<close>

text \<open>
  C1.  A \<^verbatim>\<open>send_message\<close> of Alice in a chat to which Alice and Bob are subscribed:
  after the handler and the hub's fan-out of the chat broadcast, Alice's queue holds
  two \<^verbatim>\<open>message\<close> envelopes (the echo and the broadcast, which does not exclude
  her) and Bob's holds one.
\<close>

theorem send_message_sender_gets_two_copies:
  "observe (\<lambda>w. (count_type MessageTypeMessage 1 w, count_type MessageTypeMessage 2 w))
     (and_then alice_and_bob
        (steps [(\<lambda>w. handleMessage w 1 send_intent), hub_turn FromBroadcastToChat]))
   = Inr (2, 1)"
  by code_simp

text \<open>
  C2.  The hub loop panics after an eviction.  After Alice's duplicate login the
  deregistration of her first session closes its closed queue again; the session
  is also still subscribed, as is a session closed by a queue overflow, so the
  next fan-out to the chat sends on the closed channel.
\<close>

theorem hub_loop_panics_after_eviction:
  "outcome (steps [HandleWebSocket 1 alice ''alice'', HandleWebSocket 2 alice ''alice'',
                   hub_turn (FromUnregister 1)] world0)
     = Some (Panic CloseOfClosedChannel)
   \<and> outcome (and_then duplicate_login
      (steps [(\<lambda>w. BroadcastToChat w c1 typing_frame True), hub_turn FromBroadcastToChat]))
     = Some (Panic SendOnClosedChannel)
   \<and> outcome (and_then alice_subscribed
      (steps [slow_consumer 1,
              (\<lambda>w. BroadcastToChat w c1 typing_frame True), hub_turn FromBroadcastToChat,
              (\<lambda>w. BroadcastToChat w c1 typing_frame True), hub_turn FromBroadcastToChat]))
     = Some (Panic SendOnClosedChannel)"
  by code_simp

text \<open>
  C3.  Registration of a second session of Alice closes the first session's queue
  and installs the second under her user id, but the first session stays in the
  subscriber map of the chat it was subscribed to.
\<close>

theorem register_leaves_evicted_session_subscribed:
  "observe (\<lambda>w. (closed (send (heap w 1)), closed (send (heap w 2)),
                  clients (hub w), clientsByChat (hub w)))
     duplicate_login
   = Inr (True, False, [(alice, 2)], [(c1, [(alice, 1)])])"
  by code_simp

text \<open>
  C4.  Deregistration of the evicted first session of Alice, while her second
  session is the registered one, takes the removal branch and panics on closing the
  already closed queue.
\<close>

theorem unregister_of_evicted_session_panics:
  "observe (\<lambda>w. (clients (hub w), closed (send (heap w 1)), closed (send (heap w 2))))
     (steps [HandleWebSocket 1 alice ''alice'', HandleWebSocket 2 alice ''alice''] world0)
     = Inr ([(alice, 2)], True, False)
   \<and> outcome (and_then
       (steps [HandleWebSocket 1 alice ''alice'', HandleWebSocket 2 alice ''alice''] world0)
       (\<lambda>w. unregisterClient w 1))
     = Some (Panic CloseOfClosedChannel)"
  by code_simp

text \<open>
  C5.  A chat fan-out that finds Alice's queue full closes the queue and deletes
  her entry of \<^verbatim>\<open>h.clients\<close>, but leaves the session in the chat's subscriber map
  (and the chat in the session's subscription set).
\<close>

theorem overflow_leaves_session_subscribed:
  "observe (\<lambda>w. (closed (send (heap w 1)), clients (hub w), clientsByChat (hub w),
                  subscribed (heap w 1)))
     (and_then alice_subscribed
        (steps [slow_consumer 1,
                (\<lambda>w. BroadcastToChat w c1 typing_frame True), hub_turn FromBroadcastToChat]))
   = Inr (True, [], [(c1, [(alice, 1)])], [c1])"
  by code_simp

text \<open>
  C6.  Alice's only session registers and its reader exits: two
  \<^verbatim>\<open>user_offline\<close> broadcasts are queued for the one transition, one by
  \<^verbatim>\<open>unregisterClient\<close> and one by the reader's deferred function.
\<close>

theorem reader_exit_broadcasts_offline_twice:
  "observe (\<lambda>w. map (\<lambda>m. bytes_type (bm_message m)) (broadcast (hub w)))
     (steps [HandleWebSocket 1 alice ''alice'', hub_turn FromBroadcast,
             (\<lambda>w. Read_deferred w 1)] world0)
   = Inr [MessageTypeUserOffline, MessageTypeUserOffline]"
  by code_simp

text \<open>
  C7.  A well-formed \<^verbatim>\<open>send_message\<close> frame read from the wire makes the reader
  panic: the decoded payload is a generic map, and the handler asserts that it is
  a \<^verbatim>\<open>json.RawMessage\<close>.
\<close>

theorem reader_panics_on_send_message_frame:
  "outcome (steps [HandleWebSocket 1 alice ''alice'',
                   (\<lambda>w. Read_frame is_time w 1 send_frame)] world0)
   = Some (Panic InterfaceConversion)"
  by code_simp

text \<open>
  C8, as stated: after a successful access check the subscription queues the last
  50 non-deleted messages.  It does not in every state.  With 254 frames waiting
  in Alice's queue the replay of her three messages queues two, and
  \<^verbatim>\<open>Client.Send\<close> closes the queue on the third; and when the message query
  fails, \<^verbatim>\<open>sendUnreadMessages\<close> returns without queueing anything.
\<close>

theorem subscribe_replay_cut_short:
  "GetChat (db alice_online) c1 (userID (heap alice_online 1)) = Inr c1 \<and>
   observe (\<lambda>w. (length (buf (send (heap w 1))), closed (send (heap w 1)),
                  map frame_id (drop 254 (buf (send (heap w 1))))))
     (steps [queued 254 1, subscribe 1 c1] alice_online)
     = Inr (256, True, [m1, m3]) \<and>
   GetChat (db alice_query_down) c1 (userID (heap alice_query_down 1)) = Inr c1 \<and>
   observe (\<lambda>w. (buf (send (heap w 1)), closed (send (heap w 1)), clientsByChat (hub w)))
     (steps [subscribe 1 c1] alice_query_down)
     = Inr ([], False, [(c1, [(alice, 1)])])"
  by code_simp

text \<open>
  C8, amended.  After a successful access check, when the message query answers
  and the session's queue is open with room for the window, \<^verbatim>\<open>SubscribeToChat\<close>
  returns nil and appends to that session's queue, oldest first, one
  \<^verbatim>\<open>message\<close> frame for each of the last 50 non-deleted messages of the chat.
  The frame carries the message's id, chat, sender, content, type, media URL,
  flags, status and creation stamp, and the full name and avatar of the sender's
  row (empty when there is none).  No other session changes.
\<close>

theorem subscribe_replays_recent_history:
  assumes auth: "GetChat (db w) chatID (userID (heap w c)) = Inr chat"
    and up: "\<not> failing (db w) OpGetChatMessages"
    and opn: "\<not> closed (send (heap w c))"
    and room: "length (buf (send (heap w c))) + length (spec_recent_messages (db w) chatID 50)
                 \<le> cap (send (heap w c))"
  shows "\<exists>w'. SubscribeToChat w c chatID = Inr (None, w') \<and>
     buf (send (heap w' c)) =
       buf (send (heap w c)) @
       map (\<lambda>m. Bytes
        \<lparr>Type = ''message'',
         Payload = PMessage
           \<lparr>mp_ID = ID m, mp_ChatID = ChatID m, mp_SenderID = SenderID m,
            mp_SenderName =
              (case find (\<lambda>x. user_ID x = SenderID m) (users (db w)) of
                 None \<Rightarrow> []
               | Some u \<Rightarrow>
                   if FirstName u = [] \<and> LastName u = [] then Username u
                   else FirstName u @ '' '' @ LastName u),
            mp_SenderAvatar =
              (case find (\<lambda>x. user_ID x = SenderID m) (users (db w)) of
                 None \<Rightarrow> []
               | Some u \<Rightarrow> AvatarURL u),
            mp_Content = Content m, mp_MessageType = MsgType m,
            mp_MediaURL = MediaURL m, mp_ReplyToID = None,
            mp_IsEdited = IsEdited m, mp_IsDeleted = IsDeleted m,
            mp_Status = Status m, mp_CreatedAt = CreatedAt m\<rparr>,
         RequestID = []\<rparr>)
         (spec_recent_messages (db w) chatID 50) \<and>
     (\<forall>c'. c' \<noteq> c \<longrightarrow> heap w' c' = heap w c')"
proof -
  let ?w' = "set_send (enter_chat w c chatID) c
       ((send (heap w c))\<lparr>buf := buf (send (heap w c)) @
          map (\<lambda>m. Bytes (history_frame (db w) m)) (spec_recent_messages (db w) chatID 50)\<rparr>)"
  have s: "SubscribeToChat w c chatID = Inr (None, ?w')"
    by (rule SubscribeToChat_open[OF auth up opn room])
  have b: "buf (send (heap ?w' c)) =
       buf (send (heap w c)) @
       map (\<lambda>m. Bytes
        \<lparr>Type = ''message'',
         Payload = PMessage
           \<lparr>mp_ID = ID m, mp_ChatID = ChatID m, mp_SenderID = SenderID m,
            mp_SenderName =
              (case find (\<lambda>x. user_ID x = SenderID m) (users (db w)) of
                 None \<Rightarrow> []
               | Some u \<Rightarrow>
                   if FirstName u = [] \<and> LastName u = [] then Username u
                   else FirstName u @ '' '' @ LastName u),
            mp_SenderAvatar =
              (case find (\<lambda>x. user_ID x = SenderID m) (users (db w)) of
                 None \<Rightarrow> []
               | Some u \<Rightarrow> AvatarURL u),
            mp_Content = Content m, mp_MessageType = MsgType m,
            mp_MediaURL = MediaURL m, mp_ReplyToID = None,
            mp_IsEdited = IsEdited m, mp_IsDeleted = IsDeleted m,
            mp_Status = Status m, mp_CreatedAt = CreatedAt m\<rparr>,
         RequestID = []\<rparr>)
         (spec_recent_messages (db w) chatID 50)"
    by (simp add: heap_set_send history_frame_def GetFullName_def MessageTypeMessage_def Let_def
        split: option.splits)
  have f: "\<forall>c'. c' \<noteq> c \<longrightarrow> heap ?w' c' = heap w c'"
    by (simp add: heap_set_send enter_chat_heap)
  show ?thesis using s b f by blast
qed

theorem subscribe_replays_recent_history_witness:
  "GetChat (db alice_named) c1 (userID (heap alice_named 1)) = Inr c1 \<and>
   \<not> failing (db alice_named) OpGetChatMessages \<and>
   \<not> closed (send (heap alice_named 1)) \<and>
   (\<exists>w'. SubscribeToChat alice_named 1 c1 = Inr (None, w') \<and>
      buf (send (heap w' 1)) =
       [Bytes
          \<lparr>Type = ''message'',
           Payload = PMessage
             \<lparr>mp_ID = m1, mp_ChatID = c1, mp_SenderID = alice,
              mp_SenderName = ''Alice Liddell'', mp_SenderAvatar = ''a.png'',
              mp_Content = ''one'', mp_MessageType = ''text'', mp_MediaURL = None,
              mp_ReplyToID = None, mp_IsEdited = False, mp_IsDeleted = False,
              mp_Status = ''sent'', mp_CreatedAt = 1\<rparr>,
           RequestID = []\<rparr>,
        Bytes
          \<lparr>Type = ''message'',
           Payload = PMessage
             \<lparr>mp_ID = m3, mp_ChatID = c1, mp_SenderID = bob,
              mp_SenderName = ''bob'', mp_SenderAvatar = [],
              mp_Content = ''three'', mp_MessageType = ''text'', mp_MediaURL = None,
              mp_ReplyToID = None, mp_IsEdited = False, mp_IsDeleted = False,
              mp_Status = ''sent'', mp_CreatedAt = 3\<rparr>,
           RequestID = []\<rparr>,
        Bytes
          \<lparr>Type = ''message'',
           Payload = PMessage
             \<lparr>mp_ID = m5, mp_ChatID = c1, mp_SenderID = bob,
              mp_SenderName = ''bob'', mp_SenderAvatar = [],
              mp_Content = ''five'', mp_MessageType = ''text'', mp_MediaURL = None,
              mp_ReplyToID = None, mp_IsEdited = False, mp_IsDeleted = False,
              mp_Status = ''sent'', mp_CreatedAt = 5\<rparr>,
           RequestID = []\<rparr>])"
proof -
  have h1: "GetChat (db alice_named) c1 (userID (heap alice_named 1)) = Inr c1" by code_simp
  have h2: "\<not> failing (db alice_named) OpGetChatMessages" by code_simp
  have h3: "\<not> closed (send (heap alice_named 1))" by code_simp
  have h4: "length (buf (send (heap alice_named 1))) +
      length (spec_recent_messages (db alice_named) c1 50) \<le> cap (send (heap alice_named 1))"
    by code_simp
  have v: "buf (send (heap alice_named 1)) @
       map (\<lambda>m. Bytes
        \<lparr>Type = ''message'',
         Payload = PMessage
           \<lparr>mp_ID = ID m, mp_ChatID = ChatID m, mp_SenderID = SenderID m,
            mp_SenderName =
              (case find (\<lambda>x. user_ID x = SenderID m) (users (db alice_named)) of
                 None \<Rightarrow> []
               | Some u \<Rightarrow>
                   if FirstName u = [] \<and> LastName u = [] then Username u
                   else FirstName u @ '' '' @ LastName u),
            mp_SenderAvatar =
              (case find (\<lambda>x. user_ID x = SenderID m) (users (db alice_named)) of
                 None \<Rightarrow> []
               | Some u \<Rightarrow> AvatarURL u),
            mp_Content = Content m, mp_MessageType = MsgType m,
            mp_MediaURL = MediaURL m, mp_ReplyToID = None,
            mp_IsEdited = IsEdited m, mp_IsDeleted = IsDeleted m,
            mp_Status = Status m, mp_CreatedAt = CreatedAt m\<rparr>,
         RequestID = []\<rparr>)
         (spec_recent_messages (db alice_named) c1 50) =
       [Bytes
          \<lparr>Type = ''message'',
           Payload = PMessage
             \<lparr>mp_ID = m1, mp_ChatID = c1, mp_SenderID = alice,
              mp_SenderName = ''Alice Liddell'', mp_SenderAvatar = ''a.png'',
              mp_Content = ''one'', mp_MessageType = ''text'', mp_MediaURL = None,
              mp_ReplyToID = None, mp_IsEdited = False, mp_IsDeleted = False,
              mp_Status = ''sent'', mp_CreatedAt = 1\<rparr>,
           RequestID = []\<rparr>,
        Bytes
          \<lparr>Type = ''message'',
           Payload = PMessage
             \<lparr>mp_ID = m3, mp_ChatID = c1, mp_SenderID = bob,
              mp_SenderName = ''bob'', mp_SenderAvatar = [],
              mp_Content = ''three'', mp_MessageType = ''text'', mp_MediaURL = None,
              mp_ReplyToID = None, mp_IsEdited = False, mp_IsDeleted = False,
              mp_Status = ''sent'', mp_CreatedAt = 3\<rparr>,
           RequestID = []\<rparr>,
        Bytes
          \<lparr>Type = ''message'',
           Payload = PMessage
             \<lparr>mp_ID = m5, mp_ChatID = c1, mp_SenderID = bob,
              mp_SenderName = ''bob'', mp_SenderAvatar = [],
              mp_Content = ''five'', mp_MessageType = ''text'', mp_MediaURL = None,
              mp_ReplyToID = None, mp_IsEdited = False, mp_IsDeleted = False,
              mp_Status = ''sent'', mp_CreatedAt = 5\<rparr>,
           RequestID = []\<rparr>]"
    by code_simp
  from subscribe_replays_recent_history[OF h1 h2 h3 h4] obtain w' where
    "SubscribeToChat alice_named 1 c1 = Inr (None, w')"
    "buf (send (heap w' 1)) =
       buf (send (heap alice_named 1)) @
       map (\<lambda>m. Bytes
        \<lparr>Type = ''message'',
         Payload = PMessage
           \<lparr>mp_ID = ID m, mp_ChatID = ChatID m, mp_SenderID = SenderID m,
            mp_SenderName =
              (case find (\<lambda>x. user_ID x = SenderID m) (users (db alice_named)) of
                 None \<Rightarrow> []
               | Some u \<Rightarrow>
                   if FirstName u = [] \<and> LastName u = [] then Username u
                   else FirstName u @ '' '' @ LastName u),
            mp_SenderAvatar =
              (case find (\<lambda>x. user_ID x = SenderID m) (users (db alice_named)) of
                 None \<Rightarrow> []
               | Some u \<Rightarrow> AvatarURL u),
            mp_Content = Content m, mp_MessageType = MsgType m,
            mp_MediaURL = MediaURL m, mp_ReplyToID = None,
            mp_IsEdited = IsEdited m, mp_IsDeleted = IsDeleted m,
            mp_Status = Status m, mp_CreatedAt = CreatedAt m\<rparr>,
         RequestID = []\<rparr>)
         (spec_recent_messages (db alice_named) c1 50)"
    by blast
  with v h1 h2 h3 show ?thesis by auto
qed

text \<open>
  C9, as stated: two subscriptions leave the session's outbound queue as one does.
  They do not: every call replays the history, so the queue holds the three
  frames of the window twice.
\<close>

theorem subscribe_twice_repeats_replay:
  "observe (\<lambda>w. map frame_id (buf (send (heap w 1)))) (steps [subscribe 1 c1] alice_online)
     = Inr [m1, m3, m5] \<and>
   observe (\<lambda>w. map frame_id (buf (send (heap w 1))))
       (steps [subscribe 1 c1, subscribe 1 c1] alice_online)
     = Inr [m1, m3, m5, m1, m3, m5] \<and>
   observe (queue_types 1) (steps [subscribe 1 c1, subscribe 1 c1] alice_online)
     \<noteq> observe (queue_types 1) (steps [subscribe 1 c1] alice_online)"
  by code_simp

text \<open>
  C9, amended.  When two \<^verbatim>\<open>SubscribeToChat\<close> calls for the same session and chat
  both return, the second returns what the first did and leaves the hub (its
  \<^verbatim>\<open>clients\<close> and \<^verbatim>\<open>clientsByChat\<close> maps) and the session's subscription set
  as the first left them; and a second \<^verbatim>\<open>UnsubscribeFromChat\<close> changes nothing
  at all.
\<close>

theorem subscribe_twice_keeps_maps_unsubscribe_idempotent:
  assumes first: "SubscribeToChat w c chatID = Inr (e1, w1)"
    and second: "SubscribeToChat w1 c chatID = Inr (e2, w2)"
  shows "e2 = e1 \<and> hub w2 = hub w1 \<and> subscribed (heap w2 c) = subscribed (heap w1 c) \<and>
         UnsubscribeFromChat (UnsubscribeFromChat v d chat) d chat = UnsubscribeFromChat v d chat"
proof -
  from SubscribeToChat_result[OF first]
  show ?thesis
  proof
    assume "\<exists>x. e1 = Some x \<and> GetChat (db w) chatID (userID (heap w c)) = Inl x \<and> w1 = w"
    then show ?thesis using first second
      by (auto simp: UnsubscribeFromChat_def unsubscribeFromChat_idem)
  next
    assume a: "e1 = None \<and> (\<exists>chat. GetChat (db w) chatID (userID (heap w c)) = Inr chat) \<and>
            (\<exists>ch. w1 = set_send (enter_chat w c chatID) c ch)"
    then obtain chat ch where e1: "e1 = None"
      and g: "GetChat (db w) chatID (userID (heap w c)) = Inr chat"
      and w1: "w1 = set_send (enter_chat w c chatID) c ch" by blast
    have g1: "GetChat (db w1) chatID (userID (heap w1 c)) = Inr chat"
      using g by (simp add: w1 db_set_send heap_set_send enter_chat_db enter_chat_heap)
    from SubscribeToChat_result[OF second] g1
    obtain ch2 where e2: "e2 = None" and w2: "w2 = set_send (enter_chat w1 c chatID) c ch2"
      by auto
    have h: "hub w2 = hub w1"
      by (simp add: w2 w1 hub_set_send enter_chat_again)
    have s: "subscribed (heap w2 c) = subscribed (heap w1 c)"
      by (simp add: w2 w1 heap_set_send enter_chat_heap)
    show ?thesis using e1 e2 h s by (simp add: UnsubscribeFromChat_def unsubscribeFromChat_idem)
  qed
qed

theorem subscribe_twice_keeps_maps_witness:
  "\<exists>w1 w2. SubscribeToChat alice_online 1 c1 = Inr (None, w1) \<and>
     SubscribeToChat w1 1 c1 = Inr (None, w2) \<and>
     hub w2 = hub w1 \<and> subscribed (heap w2 1) = subscribed (heap w1 1) \<and>
     clientsByChat (hub w2) = [(c1, [(alice, 1)])] \<and> subscribed (heap w2 1) = [c1]"
proof -
  have h1: "GetChat (db alice_online) c1 (userID (heap alice_online 1)) = Inr c1" by code_simp
  have h2: "\<not> failing (db alice_online) OpGetChatMessages" by code_simp
  have h3: "\<not> closed (send (heap alice_online 1))" by code_simp
  have h4: "length (buf (send (heap alice_online 1))) +
      length (spec_recent_messages (db alice_online) c1 50) \<le> cap (send (heap alice_online 1))"
    by code_simp
  define w1 where "w1 = set_send (enter_chat alice_online 1 c1) 1
       ((send (heap alice_online 1))\<lparr>buf := buf (send (heap alice_online 1)) @
          map (\<lambda>m. Bytes (history_frame (db alice_online) m))
            (spec_recent_messages (db alice_online) c1 50)\<rparr>)"
  have s1: "SubscribeToChat alice_online 1 c1 = Inr (None, w1)"
    unfolding w1_def by (rule SubscribeToChat_open[OF h1 h2 h3 h4])
  have d: "db w1 = db alice_online" and u: "userID (heap w1 1) = userID (heap alice_online 1)"
    and cl: "closed (send (heap w1 1)) = closed (send (heap alice_online 1))"
    and cp: "cap (send (heap w1 1)) = cap (send (heap alice_online 1))"
    and bf: "buf (send (heap w1 1)) = buf (send (heap alice_online 1)) @
          map (\<lambda>m. Bytes (history_frame (db alice_online) m))
            (spec_recent_messages (db alice_online) c1 50)"
    by (simp_all add: w1_def db_set_send heap_set_send enter_chat_db enter_chat_heap)
  have k1: "GetChat (db w1) c1 (userID (heap w1 1)) = Inr c1" unfolding d u by (rule h1)
  have k2: "\<not> failing (db w1) OpGetChatMessages" unfolding d by (rule h2)
  have k3: "\<not> closed (send (heap w1 1))" unfolding cl by (rule h3)
  have n: "length (buf (send (heap alice_online 1)) @
          map (\<lambda>m. Bytes (history_frame (db alice_online) m))
            (spec_recent_messages (db alice_online) c1 50)) +
        length (spec_recent_messages (db alice_online) c1 50) \<le> cap (send (heap alice_online 1))"
    by code_simp
  have k4: "length (buf (send (heap w1 1))) + length (spec_recent_messages (db w1) c1 50)
      \<le> cap (send (heap w1 1))"
    unfolding bf d cp by (rule n)
  define w2 where "w2 = set_send (enter_chat w1 1 c1) 1
       ((send (heap w1 1))\<lparr>buf := buf (send (heap w1 1)) @
          map (\<lambda>m. Bytes (history_frame (db w1) m)) (spec_recent_messages (db w1) c1 50)\<rparr>)"
  have s2: "SubscribeToChat w1 1 c1 = Inr (None, w2)"
    unfolding w2_def by (rule SubscribeToChat_open[OF k1 k2 k3 k4])
  have m: "clientsByChat (hub w1) = [(c1, [(alice, 1)])]"
    unfolding w1_def hub_set_send enter_chat_hub by code_simp
  have sb: "subscribed (heap w1 1) = [c1]"
    by (simp add: w1_def heap_set_send enter_chat_heap) code_simp
  from subscribe_twice_keeps_maps_unsubscribe_idempotent[OF s1 s2]
  have "hub w2 = hub w1" "subscribed (heap w2 1) = subscribed (heap w1 1)" by blast+
  with s1 s2 m sb show ?thesis by auto
qed

text \<open>
  C10.  A \<^verbatim>\<open>read_message\<close> frame for Bob's message \<open>m3\<close>, read from the wire on
  Alice's session, makes the reader panic at the handler's type assertion: no
  read mark is made and no \<^verbatim>\<open>message_read\<close> envelope is queued.  On an envelope
  whose payload already is a \<^verbatim>\<open>json.RawMessage\<close> the handler does what it is
  written for: it marks for Alice every non-deleted message of the chat that
  another user sent (\<open>m3\<close> and \<open>m5\<close>) and queues one \<^verbatim>\<open>message_read\<close> envelope
  with the id \<open>m3\<close> for the chat, all subscribers included.
\<close>

theorem read_message_from_wire_panics:
  "outcome (Read_frame is_time alice_online 1 read_frame) = Some (Panic InterfaceConversion) \<and>
   observe (\<lambda>w. (message_reads (db w), broadcastToChat (hub w)))
     (handleMessage alice_online 1 read_intent)
     = Inr ([(m5, alice), (m3, alice)],
            [\<lparr>cbm_chatID = c1,
              cbm_message = Bytes \<lparr>Type = ''message_read'', Payload = PMessageRead m3 alice,
                                   RequestID = []\<rparr>,
              cbm_excludeID = uuid_Nil, cbm_skipCheck = True\<rparr>])"
  by code_simp

end
